theory Spec2Isabelle
  imports Main "HOL-Library.Sublist"
begin

section \<open>Python values, exceptions and the library functions the orchestrator uses\<close>

text \<open>
  The orchestrator (\<^verbatim>\<open>src/orchestrator/orchestrator.py\<close>) works on plain Python values:
  tasks, payloads and results are dictionaries with string keys. A dictionary is an
  association list in insertion order, looked up with \<open>map_of\<close>; a string is a list of
  bytes (the keywords and keys of the program are ASCII).
\<close>

datatype pyval =
    PNone
  | PBool bool
  | PInt int
  | PStr string
  | PList "pyval list"
  | PDict "(string \<times> pyval) list"

type_synonym pydict = "(string \<times> pyval) list"

text \<open>
  Exceptions are values. \<open>HandlerError msg\<close> stands for any \<^verbatim>\<open>Exception\<close> raised by
  an external collaborator (a handler, the oracle, \<^verbatim>\<open>ast.literal_eval\<close>), with
  \<^verbatim>\<open>str(e) = msg\<close>.
\<close>

datatype pyexn =
    KeyError string
  | TypeError string
  | AttributeError string
  | IndexError string
  | HandlerError string

text \<open>
  Four library functions are taken as parameters: \<^verbatim>\<open>ast.literal_eval\<close> (a parser of Python
  literals, which raises on malformed text), the builtin \<^verbatim>\<open>repr\<close>, and the two string
  methods whose result depends on Unicode white space, \<^verbatim>\<open>str.strip()\<close> and \<^verbatim>\<open>str.split()\<close>
  without a separator. Every theorem that is stated for an arbitrary \<open>py\<close> holds for
  Python's own functions.
\<close>

record pylib =
  literal_eval :: "string \<Rightarrow> pyexn + pyval"
  repr :: "pyval \<Rightarrow> string"
  strip :: "string \<Rightarrow> string"
  split_ws :: "string \<Rightarrow> string list"

text \<open>\<^verbatim>\<open>str(v)\<close>: a string is itself, every other builtin value prints as its \<^verbatim>\<open>repr\<close>.\<close>

fun py_str :: "pylib \<Rightarrow> pyval \<Rightarrow> string" where
  "py_str py (PStr s) = s"
| "py_str py v = repr py v"

text \<open>\<^verbatim>\<open>str(e)\<close> of an exception; a \<^verbatim>\<open>KeyError\<close> prints the \<^verbatim>\<open>repr\<close> of its key.\<close>

fun exn_str :: "pylib \<Rightarrow> pyexn \<Rightarrow> string" where
  "exn_str py (KeyError k) = repr py (PStr k)"
| "exn_str py (TypeError m) = m"
| "exn_str py (AttributeError m) = m"
| "exn_str py (IndexError m) = m"
| "exn_str py (HandlerError m) = m"

text \<open>Truthiness, as \<^verbatim>\<open>not v\<close> and \<^verbatim>\<open>if v\<close> test it.\<close>

fun truthy :: "pyval \<Rightarrow> bool" where
  "truthy PNone = False"
| "truthy (PBool b) = b"
| "truthy (PInt n) = (n \<noteq> 0)"
| "truthy (PStr s) = (s \<noteq> [])"
| "truthy (PList xs) = (xs \<noteq> [])"
| "truthy (PDict d) = (d \<noteq> [])"

text \<open>\<^verbatim>\<open>d.get(k)\<close> and \<^verbatim>\<open>d.get(k, default)\<close>.\<close>

definition dict_get :: "pydict \<Rightarrow> string \<Rightarrow> pyval" where
  "dict_get d k = (case map_of d k of None \<Rightarrow> PNone | Some v \<Rightarrow> v)"

definition dict_get_default :: "pydict \<Rightarrow> string \<Rightarrow> pyval \<Rightarrow> pyval" where
  "dict_get_default d k dflt = (case map_of d k of None \<Rightarrow> dflt | Some v \<Rightarrow> v)"

text \<open>\<^verbatim>\<open>k in d\<close>.\<close>

definition dict_has :: "(string \<times> 'v) list \<Rightarrow> string \<Rightarrow> bool" where
  "dict_has d k = (map_of d k \<noteq> None)"

text \<open>
  \<^verbatim>\<open>d[k] = v\<close>: an existing key keeps its position, a new key goes to the end.
\<close>

fun dict_set :: "string \<Rightarrow> 'v \<Rightarrow> (string \<times> 'v) list \<Rightarrow> (string \<times> 'v) list" where
  "dict_set k v [] = [(k, v)]"
| "dict_set k v (p # ps) = (if fst p = k then (k, v) # ps else p # dict_set k v ps)"

text \<open>\<^verbatim>\<open>d.setdefault(k, v)\<close> (the returned value is not used by the program).\<close>

definition dict_setdefault :: "string \<Rightarrow> 'v \<Rightarrow> (string \<times> 'v) list \<Rightarrow> (string \<times> 'v) list" where
  "dict_setdefault k v d = (if dict_has d k then d else dict_set k v d)"

subsection \<open>Strings\<close>

text \<open>
  \<^verbatim>\<open>str.lower\<close> on the ASCII letters. (Outside ASCII, Python's lower-casing yields an ASCII
  letter only for U+212A and U+0130, giving \<open>k\<close> and \<open>i\<close>, which occur in none of the
  classifier's keywords.)
\<close>

definition lower_char :: "char \<Rightarrow> char" where
  "lower_char c =
     (case map_of (zip ''ABCDEFGHIJKLMNOPQRSTUVWXYZ'' ''abcdefghijklmnopqrstuvwxyz'') c of
        Some l \<Rightarrow> l
      | None \<Rightarrow> c)"

definition lower :: "string \<Rightarrow> string" where
  "lower s = map lower_char s"

text \<open>\<^verbatim>\<open>s.startswith(p)\<close> and \<^verbatim>\<open>sub in s\<close>.\<close>

fun startswith :: "string \<Rightarrow> string \<Rightarrow> bool" where
  "startswith s [] = True"
| "startswith [] (p # ps) = False"
| "startswith (c # cs) (p # ps) = (c = p \<and> startswith cs ps)"

fun str_contains :: "string \<Rightarrow> string \<Rightarrow> bool" where
  "str_contains sub [] = (sub = [])"
| "str_contains sub (c # cs) = (startswith (c # cs) sub \<or> str_contains sub cs)"

text \<open>
  \<^verbatim>\<open>str.strip()\<close> on ASCII text, for the examples: it removes tab, line feed, vertical tab,
  form feed, carriage return, the separators 0x1C to 0x1F and the space. (On other text
  Python also removes the Unicode white space, such as U+00A0; the orchestrator is
  modelled with the parameter \<open>strip\<close>.)
\<close>

definition is_ascii_space :: "char \<Rightarrow> bool" where
  "is_ascii_space c =
     (let n = (of_char c :: nat) in (9 \<le> n \<and> n \<le> 13) \<or> (28 \<le> n \<and> n \<le> 32))"

definition ascii_strip :: "string \<Rightarrow> string" where
  "ascii_strip s = rev (dropWhile is_ascii_space (rev (dropWhile is_ascii_space s)))"

text \<open>
  \<^verbatim>\<open>s.split(sep)\<close> for a non-empty separator: the pieces between the non-overlapping
  occurrences of \<open>sep\<close>, scanned from the left. \<open>acc\<close> is the current piece, reversed.
\<close>

fun split_acc :: "string \<Rightarrow> string \<Rightarrow> string \<Rightarrow> string list" where
  "split_acc sep acc [] = [rev acc]"
| "split_acc sep acc (c # cs) =
     (if startswith (c # cs) sep
      then rev acc # split_acc sep [] (drop (length sep - 1) cs)
      else split_acc sep (c # acc) cs)"

definition split :: "string \<Rightarrow> string \<Rightarrow> string list" where
  "split s sep = split_acc sep [] s"

text \<open>\<^verbatim>\<open>s.split()\<close> on ASCII text, for the examples: the maximal runs without white space.\<close>

fun ascii_split_ws_acc :: "string \<Rightarrow> string \<Rightarrow> string list" where
  "ascii_split_ws_acc acc [] = (if acc = [] then [] else [rev acc])"
| "ascii_split_ws_acc acc (c # cs) =
     (if is_ascii_space c
      then (if acc = [] then ascii_split_ws_acc [] cs else rev acc # ascii_split_ws_acc [] cs)
      else ascii_split_ws_acc (c # acc) cs)"

definition ascii_split_ws :: "string \<Rightarrow> string list" where
  "ascii_split_ws s = ascii_split_ws_acc [] s"

text \<open>\<^verbatim>\<open>xs[i]\<close> for a non-negative index; out of range raises.\<close>

definition index :: "'a list \<Rightarrow> nat \<Rightarrow> pyexn + 'a" where
  "index xs i = (if i < length xs then Inr (xs ! i) else Inl (IndexError ''list index out of range''))"

text \<open>\<^verbatim>\<open>sep.join(xs)\<close>.\<close>

fun join :: "string \<Rightarrow> string list \<Rightarrow> string" where
  "join sep [] = []"
| "join sep [x] = x"
| "join sep (x # y # ys) = x @ sep @ join sep (y # ys)"


section \<open>The orchestrator\<close>

text \<open>
  A handler is the \<^verbatim>\<open>handle\<close> method of an agent: it receives a task and returns a
  result mapping or raises. The oracle is \<^verbatim>\<open>gemini_model.generate_content_async\<close>
  followed by reading the \<^verbatim>\<open>text\<close> of the response: it receives the prompt and returns
  the text or raises. Both are external; the model takes them as functions and assumes
  that they do not mutate their argument.
\<close>

type_synonym handler = "pydict \<Rightarrow> pyexn + pydict"

type_synonym generative_model = "pyval \<Rightarrow> pyexn + string"

text \<open>One invocation of a handler: the agent type it was found under, and the task passed.\<close>

type_synonym call = "pyval \<times> pydict"

record agent_entry =
  entry_instance :: "handler option"
  entry_description :: string

record orchestrator =
  agents :: "(string \<times> handler option) list"
  agent_descriptions :: "(string \<times> string) list"
  gemini_api_key :: "string option"
  default_agent_type :: string
  gemini_model :: "generative_model option"

text \<open>
  What \<^verbatim>\<open>Orchestrator.__init__\<close> reads from its environment: the \<^verbatim>\<open>genai\<close> module when
  it could be imported (given the key, \<^verbatim>\<open>configure\<close> and \<^verbatim>\<open>GenerativeModel\<close> yield a
  model or raise) and the variable \<^verbatim>\<open>GEMINI_API_KEY\<close>.
\<close>

record pyenv =
  genai :: "(string \<Rightarrow> pyexn + generative_model) option"
  getenv_GEMINI_API_KEY :: "string option"

definition Orchestrator_init ::
  "pyenv \<Rightarrow> (string \<times> agent_entry) list \<Rightarrow> string option \<Rightarrow> string \<Rightarrow> orchestrator" where
  "Orchestrator_init env agents_arg key default_type =
     (let api_key = (case key of Some k \<Rightarrow> (if k \<noteq> [] then Some k else getenv_GEMINI_API_KEY env)
                                | None \<Rightarrow> getenv_GEMINI_API_KEY env);
          model = (case (genai env, api_key) of
                     (Some init, Some k) \<Rightarrow>
                       (if k \<noteq> [] then (case init k of Inr m \<Rightarrow> Some m | Inl e \<Rightarrow> None) else None)
                   | _ \<Rightarrow> None)
      in \<lparr> agents = map (\<lambda>(k, v). (k, entry_instance v)) agents_arg,
           agent_descriptions = map (\<lambda>(k, v). (k, entry_description v)) agents_arg,
           gemini_api_key = key,
           default_agent_type = default_type,
           gemini_model = model \<rparr>)"

text \<open>\<^verbatim>\<open>self.agents.get(k)\<close> and \<^verbatim>\<open>k in self.agents\<close>: a list or a dict cannot be hashed.\<close>

definition unhashable :: "string \<Rightarrow> pyexn" where
  "unhashable tname = TypeError (''unhashable type: '' @ [CHR 0x27] @ tname @ [CHR 0x27])"

fun agents_get :: "orchestrator \<Rightarrow> pyval \<Rightarrow> pyexn + handler option" where
  "agents_get self (PStr s) =
     Inr (case map_of (agents self) s of None \<Rightarrow> None | Some inst \<Rightarrow> inst)"
| "agents_get self (PList xs) = Inl (unhashable ''list'')"
| "agents_get self (PDict d) = Inl (unhashable ''dict'')"
| "agents_get self v = Inr None"

fun agents_has :: "orchestrator \<Rightarrow> pyval \<Rightarrow> pyexn + bool" where
  "agents_has self (PStr s) = Inr (map_of (agents self) s \<noteq> None)"
| "agents_has self (PList xs) = Inl (unhashable ''list'')"
| "agents_has self (PDict d) = Inl (unhashable ''dict'')"
| "agents_has self v = Inr False"

definition opt_str :: "string option \<Rightarrow> pyval" where
  "opt_str s = (case s of None \<Rightarrow> PNone | Some x \<Rightarrow> PStr x)"

subsection \<open>Code fences\<close>

text \<open>
  The same three branches remove a code fence from the oracle's reply in
  \<^verbatim>\<open>classify_task\<close> and in \<^verbatim>\<open>decompose_task\<close>.
\<close>

definition strip_fences :: "pylib \<Rightarrow> string \<Rightarrow> pyexn + string" where
  "strip_fences py t =
     (if startswith t ''```python'' then
        (case index (split t ''```python'') 1 of Inl e \<Rightarrow> Inl e
         | Inr a \<Rightarrow> (case index (split a ''```'') 0 of Inl e \<Rightarrow> Inl e | Inr b \<Rightarrow> Inr (strip py b)))
      else if startswith t ''```json'' then
        (case index (split t ''```json'') 1 of Inl e \<Rightarrow> Inl e
         | Inr a \<Rightarrow> (case index (split a ''```'') 0 of Inl e \<Rightarrow> Inl e | Inr b \<Rightarrow> Inr (strip py b)))
      else if startswith t ''```'' then
        (case index (split t ''```'') 1 of Inl e \<Rightarrow> Inl e | Inr a \<Rightarrow> Inr (strip py a))
      else Inr t)"

subsection \<open>\<^verbatim>\<open>classify_task\<close>\<close>

definition classify_prompt :: "orchestrator \<Rightarrow> string option \<Rightarrow> string" where
  "classify_prompt self text =
     ''Classify the following user message into a task dictionary with keys: 'type', 'payload'. '' @
     ''The 'type' should be one of: '' @ join '', '' (map fst (agents self)) @ ''. '' @
     ''The 'payload' should contain relevant information, typically a 'query' key with the original text or key entities. '' @
     ''Message: '' @ [CHR 0x22] @ (case text of None \<Rightarrow> ''None'' | Some s \<Rightarrow> s) @ [CHR 0x22, CHR 0x0A] @
     ''Respond with only a valid Python dictionary string. '' @
     ''Example: {'type': 'web_search', 'payload': {'query': 'search term'}}''"

text \<open>
  The \<^verbatim>\<open>try\<close> block of \<^verbatim>\<open>classify_task\<close>: \<open>Inl e\<close> when it raises, \<open>Inr None\<close> when it
  ends without returning, \<open>Inr (Some t)\<close> when it returns the task \<open>t\<close>.
\<close>

definition classify_with_oracle ::
  "pylib \<Rightarrow> orchestrator \<Rightarrow> generative_model \<Rightarrow> string option \<Rightarrow> string option \<Rightarrow> string option
     \<Rightarrow> pyexn + pydict option" where
  "classify_with_oracle py self model text user channel =
     (case model (PStr (classify_prompt self text)) of Inl e \<Rightarrow> Inl e
      | Inr response \<Rightarrow>
         (case strip_fences py (strip py response) of Inl e \<Rightarrow> Inl e
          | Inr task_dict_str \<Rightarrow>
             (case literal_eval py task_dict_str of Inl e \<Rightarrow> Inl e
              | Inr (PDict parsed_task) \<Rightarrow>
                  (if dict_has parsed_task ''type'' \<and> dict_has parsed_task ''payload''
                   then Inr (Some (dict_set ''context'' (PDict [(''channel'', opt_str channel)])
                                     (dict_set ''user'' (opt_str user) parsed_task)))
                   else Inr None)
              | Inr _ \<Rightarrow> Inr None)))"

text \<open>The rule-based fallback: the first keyword found in the lower-cased text decides.\<close>

definition rule_based_type :: "orchestrator \<Rightarrow> string option \<Rightarrow> string" where
  "rule_based_type self text =
     (let lowered = lower (case text of None \<Rightarrow> [] | Some s \<Rightarrow> s) in
      if str_contains ''search'' lowered then ''web_search''
      else if str_contains ''data'' lowered \<or> str_contains ''fetch'' lowered then ''data_retrieval''
      else if str_contains ''report'' lowered then ''report_generation''
      else if str_contains ''dashboard'' lowered \<or> str_contains ''analy'' lowered
        then ''analysis_dashboard''
      else default_agent_type self)"

definition rule_based_task ::
  "orchestrator \<Rightarrow> string option \<Rightarrow> string option \<Rightarrow> string option \<Rightarrow> pydict" where
  "rule_based_task self text user channel =
     [(''type'', PStr (rule_based_type self text)),
      (''payload'', PDict [(''query'', opt_str text)]),
      (''user'', opt_str user),
      (''context'', PDict [(''channel'', opt_str channel)])]"

definition classify_task ::
  "pylib \<Rightarrow> orchestrator \<Rightarrow> string option \<Rightarrow> string option \<Rightarrow> string option \<Rightarrow> pydict" where
  "classify_task py self text user channel =
     (case gemini_model self of
        None \<Rightarrow> rule_based_task self text user channel
      | Some model \<Rightarrow>
          (case classify_with_oracle py self model text user channel of
             Inr (Some task_dict) \<Rightarrow> task_dict
           | _ \<Rightarrow> rule_based_task self text user channel))"

subsection \<open>\<^verbatim>\<open>decompose_task\<close>\<close>

definition decompose_prompt :: "pylib \<Rightarrow> orchestrator \<Rightarrow> pydict \<Rightarrow> string" where
  "decompose_prompt py self task =
     ''Given the following task dictionary, decompose it into a list of sub-task dictionaries '' @
     ''for a multi-agent workflow. Each sub-task should be a valid Python dictionary. '' @
     ''Each sub-task dictionary must have a 'type' key, chosen from: '' @
     join '', '' (map fst (agents self)) @ ''. '' @
     ''It must also have a 'payload' key. '' @
     ''If the task does not require decomposition, return a list containing only the original task. '' @
     ''Respond with only a valid Python list of dictionaries string. '' @
     ''Example: [{'type': 'data_retrieval', 'payload': {'source': 'db'}}, '' @
     ''{'type': 'analysis', 'payload': {'data_key': 'input'}}]'' @ [CHR 0x0A] @
     ''Original Task: '' @ repr py (PDict task)"

fun is_dict :: "pyval \<Rightarrow> bool" where
  "is_dict (PDict d) = True"
| "is_dict v = False"

fun the_dict :: "pyval \<Rightarrow> pydict" where
  "the_dict (PDict d) = d"
| "the_dict v = []"

text \<open>
  The \<^verbatim>\<open>try\<close> block of \<^verbatim>\<open>decompose_task\<close>: the parsed value is returned when it is a list
  whose elements are all dicts, and \<open>[task]\<close> otherwise.
\<close>

definition decompose_with_oracle :: "pylib \<Rightarrow> orchestrator \<Rightarrow> generative_model \<Rightarrow> pydict \<Rightarrow> pyexn + pydict list" where
  "decompose_with_oracle py self model task =
     (case model (PStr (decompose_prompt py self task)) of Inl e \<Rightarrow> Inl e
      | Inr response \<Rightarrow>
         (case strip_fences py (strip py response) of Inl e \<Rightarrow> Inl e
          | Inr response_text \<Rightarrow>
             (case literal_eval py response_text of Inl e \<Rightarrow> Inl e
              | Inr (PList sub_tasks) \<Rightarrow>
                  (if list_all is_dict sub_tasks then Inr (map the_dict sub_tasks) else Inr [task])
              | Inr _ \<Rightarrow> Inr [task])))"

definition decompose_task :: "pylib \<Rightarrow> orchestrator \<Rightarrow> pydict \<Rightarrow> pydict list" where
  "decompose_task py self task =
     (case gemini_model self of
        None \<Rightarrow> [task]
      | Some model \<Rightarrow>
          (case decompose_with_oracle py self model task of
             Inr sub_tasks \<Rightarrow> sub_tasks
           | Inl e \<Rightarrow> [task]))"


subsection \<open>\<^verbatim>\<open>handle_task\<close>\<close>

fun type_name :: "pyval \<Rightarrow> string" where
  "type_name PNone = ''NoneType''"
| "type_name (PBool b) = ''bool''"
| "type_name (PInt n) = ''int''"
| "type_name (PStr s) = ''str''"
| "type_name (PList xs) = ''list''"
| "type_name (PDict d) = ''dict''"

text \<open>
  The element of the generator of \<^verbatim>\<open>can_run_concurrent\<close> at \<open>idx\<close>:
  \<^verbatim>\<open>idx == 0 or not sub_tasks[idx]["payload"].get("input")\<close>. A sub-task without the key
  \<^verbatim>\<open>payload\<close> raises \<^verbatim>\<open>KeyError\<close>, a payload that is no dict has no \<^verbatim>\<open>get\<close>.
\<close>

definition independent_at :: "pydict list \<Rightarrow> nat \<Rightarrow> pyexn + bool" where
  "independent_at sub_tasks idx =
     (if idx = 0 then Inr True
      else (case map_of (sub_tasks ! idx) ''payload'' of
              None \<Rightarrow> Inl (KeyError ''payload'')
            | Some (PDict payload) \<Rightarrow> Inr (\<not> truthy (dict_get payload ''input''))
            | Some v \<Rightarrow> Inl (AttributeError
                ([CHR 0x27] @ type_name v @ [CHR 0x27] @ '' object has no attribute '' @
                 [CHR 0x27] @ ''get'' @ [CHR 0x27]))))"

text \<open>
  \<^verbatim>\<open>all(...)\<close> consumes the generator from the left and stops at the first false element;
  an element that raises before that ends the evaluation with its exception.
\<close>

fun py_all :: "(pyexn + bool) list \<Rightarrow> pyexn + bool" where
  "py_all [] = Inr True"
| "py_all (Inl e # xs) = Inl e"
| "py_all (Inr b # xs) = (if b then py_all xs else Inr False)"

definition can_run_concurrent :: "pydict list \<Rightarrow> pyexn + bool" where
  "can_run_concurrent sub_tasks =
     py_all (map (independent_at sub_tasks) [0..<length sub_tasks])"

definition no_agent_error :: "pylib \<Rightarrow> pyval \<Rightarrow> pydict" where
  "no_agent_error py agent_type =
     [(''error'', PStr (''No agent for type: '' @ py_str py agent_type))]"

definition agent_failed_error :: "pylib \<Rightarrow> pyval \<Rightarrow> pyexn \<Rightarrow> pydict \<Rightarrow> pydict" where
  "agent_failed_error py agent_type e sub_task =
     [(''error'', PStr (''Agent '' @ [CHR 0x27] @ py_str py agent_type @ [CHR 0x27] @
                        '' failed: '' @ exn_str py e)),
      (''sub_task'', PDict sub_task)]"

text \<open>
  \<^verbatim>\<open>run_agent\<close>, the unit of the concurrent strategy: the result, and the handler
  invocation if there was one.
\<close>

definition run_agent :: "pylib \<Rightarrow> orchestrator \<Rightarrow> pydict \<Rightarrow> pyexn + (pydict \<times> call list)" where
  "run_agent py self sub_task =
     (let agent_type = dict_get sub_task ''type'' in
      case agents_get self agent_type of
        Inl e \<Rightarrow> Inl e
      | Inr None \<Rightarrow> Inr (no_agent_error py agent_type, [])
      | Inr (Some agent) \<Rightarrow>
          (case agent sub_task of
             Inr result \<Rightarrow> Inr (result, [(agent_type, sub_task)])
           | Inl e \<Rightarrow> Inr (agent_failed_error py agent_type e sub_task, [(agent_type, sub_task)])))"

text \<open>
  The state of the two strategies: the results so far, the previous result of the
  sequential chain, and the handler invocations made, in order.
\<close>

record loop_state =
  results :: "pydict list"
  prev_result :: "pydict option"
  calls :: "call list"

text \<open>
  \<^verbatim>\<open>asyncio.gather\<close> over \<^verbatim>\<open>run_agent\<close>: handlers are functions here, so the units run
  in the order of the sub-tasks; the results keep that order and the first exception
  is propagated.
\<close>

fun gather :: "pylib \<Rightarrow> orchestrator \<Rightarrow> pydict list \<Rightarrow> pyexn + (pydict list \<times> call list)" where
  "gather py self [] = Inr ([], [])"
| "gather py self (sub_task # rest) =
     (case run_agent py self sub_task of
        Inl e \<Rightarrow> Inl e
      | Inr (r, c) \<Rightarrow>
          (case gather py self rest of
             Inl e \<Rightarrow> Inl e
           | Inr (rs, cs) \<Rightarrow> Inr (r # rs, c @ cs)))"

definition run_concurrent :: "pylib \<Rightarrow> orchestrator \<Rightarrow> pydict list \<Rightarrow> pyexn + loop_state" where
  "run_concurrent py self sub_tasks =
     (case gather py self sub_tasks of
        Inl e \<Rightarrow> Inl e
      | Inr (rs, cs) \<Rightarrow>
          Inr \<lparr> results = rs, prev_result = (if rs \<noteq> [] then Some (last rs) else None), calls = cs \<rparr>)"

text \<open>
  The chaining injection of the sequential strategy, on values:
  \<^verbatim>\<open>sub_task = sub_task.copy(); sub_task.setdefault("payload", {});
  sub_task["payload"]["input"] = prev_result\<close>.
\<close>

definition chain_input :: "pydict \<Rightarrow> pydict \<Rightarrow> pyexn + pydict" where
  "chain_input sub_task prev =
     (let copied = dict_setdefault ''payload'' (PDict []) sub_task in
      case dict_get copied ''payload'' of
        PDict payload \<Rightarrow>
          Inr (dict_set ''payload'' (PDict (dict_set ''input'' (PDict prev) payload)) copied)
      | PList xs \<Rightarrow> Inl (TypeError ''list indices must be integers or slices, not str'')
      | v \<Rightarrow> Inl (TypeError ([CHR 0x27] @ type_name v @ [CHR 0x27] @
                               '' object does not support item assignment'')))"

text \<open>One iteration of the sequential loop, for the sub-task at \<open>idx\<close>.\<close>

definition seq_step :: "pylib \<Rightarrow> orchestrator \<Rightarrow> nat \<Rightarrow> pydict \<Rightarrow> loop_state \<Rightarrow> pyexn + loop_state" where
  "seq_step py self idx sub_task s =
     (let agent_type = dict_get sub_task ''type'' in
      case agents_get self agent_type of
        Inl e \<Rightarrow> Inl e
      | Inr None \<Rightarrow> Inr (s\<lparr> results := results s @ [no_agent_error py agent_type] \<rparr>)
      | Inr (Some agent) \<Rightarrow>
          (case (if idx > 0 \<and> prev_result s \<noteq> None
                 then chain_input sub_task (the (prev_result s))
                 else Inr sub_task) of
             Inl e \<Rightarrow> Inl e
           | Inr sub_task' \<Rightarrow>
               (case agent sub_task' of
                  Inr result \<Rightarrow>
                    Inr \<lparr> results = results s @ [result],
                          prev_result = Some result,
                          calls = calls s @ [(agent_type, sub_task')] \<rparr>
                | Inl e \<Rightarrow>
                    Inr \<lparr> results = results s @ [agent_failed_error py agent_type e sub_task'],
                          prev_result = None,
                          calls = calls s @ [(agent_type, sub_task')] \<rparr>)))"

fun seq_loop :: "pylib \<Rightarrow> orchestrator \<Rightarrow> (nat \<times> pydict) list \<Rightarrow> loop_state \<Rightarrow> pyexn + loop_state" where
  "seq_loop py self [] s = Inr s"
| "seq_loop py self ((idx, sub_task) # rest) s =
     (case seq_step py self idx sub_task s of
        Inl e \<Rightarrow> Inl e
      | Inr s' \<Rightarrow> seq_loop py self rest s')"

definition run_sequential :: "pylib \<Rightarrow> orchestrator \<Rightarrow> pydict list \<Rightarrow> pyexn + loop_state" where
  "run_sequential py self sub_tasks =
     seq_loop py self (enumerate 0 sub_tasks) \<lparr> results = [], prev_result = None, calls = [] \<rparr>"

text \<open>The strategy chosen once \<^verbatim>\<open>can_run_concurrent\<close> has been computed.\<close>

datatype strategy = CONCURRENT | SEQUENTIAL

definition select_strategy :: "pydict list \<Rightarrow> pyexn + strategy" where
  "select_strategy sub_tasks =
     (case can_run_concurrent sub_tasks of
        Inl e \<Rightarrow> Inl e
      | Inr c \<Rightarrow> Inr (if c \<and> length sub_tasks > 1 then CONCURRENT else SEQUENTIAL))"

definition execute_sub_tasks :: "pylib \<Rightarrow> orchestrator \<Rightarrow> pydict list \<Rightarrow> pyexn + loop_state" where
  "execute_sub_tasks py self sub_tasks =
     (case select_strategy sub_tasks of
        Inl e \<Rightarrow> Inl e
      | Inr CONCURRENT \<Rightarrow> run_concurrent py self sub_tasks
      | Inr SEQUENTIAL \<Rightarrow> run_sequential py self sub_tasks)"

text \<open>The last lines of \<^verbatim>\<open>handle_task\<close>: what is returned for the list of results.\<close>

definition aggregate :: "pydict list \<Rightarrow> pydict" where
  "aggregate rs =
     (if rs = [] then [(''error'', PStr ''No results generated from task execution.'')]
      else if length rs = 1 \<and> \<not> dict_has (rs ! 0) ''error'' then rs ! 0
      else if list_all (\<lambda>r. \<not> dict_has r ''error'') rs then last rs
      else [(''final_status'', PStr ''Completed with errors or multiple results''),
            (''results'', PList (map PDict rs))])"

text \<open>
  \<^verbatim>\<open>handle_task\<close>: the returned mapping and the handler invocations made, or the
  exception that leaves the method.
\<close>

definition handle_task :: "pylib \<Rightarrow> orchestrator \<Rightarrow> pydict \<Rightarrow> pyexn + (pydict \<times> call list)" where
  "handle_task py self task =
     (let sub_tasks = (if gemini_model self \<noteq> None then decompose_task py self task else [task]) in
      case execute_sub_tasks py self sub_tasks of
        Inl e \<Rightarrow> Inl e
      | Inr s \<Rightarrow> Inr (aggregate (results s), calls s))"

subsection \<open>\<^verbatim>\<open>route_task\<close>\<close>

definition agent_type_prompt :: "pylib \<Rightarrow> orchestrator \<Rightarrow> pydict \<Rightarrow> string" where
  "agent_type_prompt py self task =
     ''Given the following task, determine the best agent type to handle it.'' @ [CHR 0x0A] @
     ''Possible agent types and their descriptions:'' @ [CHR 0x0A] @
     join [CHR 0x0A] (map (\<lambda>(name, desc). ''- '' @ name @ '': '' @ desc) (agent_descriptions self)) @
     [CHR 0x0A] @ ''Task: '' @ repr py (PDict task) @
     [CHR 0x0A] @ ''Respond with only the agent type.''"

text \<open>
  \<^verbatim>\<open>_get_agent_type_from_gemini\<close>: the first word of the oracle's reply when it is a
  registered type id, the task's own type in every other case.
\<close>

definition get_agent_type_from_gemini :: "pylib \<Rightarrow> orchestrator \<Rightarrow> pydict \<Rightarrow> pyval" where
  "get_agent_type_from_gemini py self task =
     (case gemini_model self of
        None \<Rightarrow> dict_get task ''type''
      | Some model \<Rightarrow>
          (case model (PStr (agent_type_prompt py self task)) of
             Inl e \<Rightarrow> dict_get task ''type''
           | Inr response \<Rightarrow>
               (let response_text = strip py response in
                case (if response_text \<noteq> [] then index (split_ws py response_text) 0 else Inr []) of
                  Inl e \<Rightarrow> dict_get task ''type''
                | Inr determined_type \<Rightarrow>
                    (if determined_type \<noteq> [] \<and> determined_type \<in> set (map fst (agents self))
                     then PStr determined_type
                     else dict_get task ''type''))))"

text \<open>
  What \<^verbatim>\<open>_get_agent_type_from_gemini\<close> accepts, as a predicate: the oracle names the type
  id \<open>d\<close> for a task when it returns a reply whose stripped text is not empty and has
  \<open>d\<close> as its first word, and \<open>d\<close> is a registered type id.
\<close>

definition oracle_names ::
  "pylib \<Rightarrow> orchestrator \<Rightarrow> generative_model \<Rightarrow> pydict \<Rightarrow> string \<Rightarrow> bool" where
  "oracle_names py self model task d =
     (d \<noteq> [] \<and> d \<in> set (map fst (agents self)) \<and>
      (case model (PStr (agent_type_prompt py self task)) of
         Inl e \<Rightarrow> False
       | Inr response \<Rightarrow>
           strip py response \<noteq> [] \<and>
           (case split_ws py (strip py response) of [] \<Rightarrow> False | w # ws \<Rightarrow> w = d)))"

definition agent_not_found_error :: "pylib \<Rightarrow> orchestrator \<Rightarrow> pyval \<Rightarrow> pydict" where
  "agent_not_found_error py self agent_type =
     [(''error'', PStr (''Sorry, I couldn't find an agent for your request (type: '' @ [CHR 0x27] @
                        py_str py agent_type @ [CHR 0x27] @ ''). Available agents: '' @
                        repr py (PList (map (PStr \<circ> fst) (agents self)))))]"

definition agent_issue_error :: "pylib \<Rightarrow> pyval \<Rightarrow> pyexn \<Rightarrow> pydict" where
  "agent_issue_error py agent_type e =
     [(''error'', PStr (''Sorry, the agent '' @ [CHR 0x27] @ py_str py agent_type @ [CHR 0x27] @
                        '' encountered an issue. Please try again later.'')),
      (''details'', PStr (exn_str py e))]"

definition routing_error :: "pylib \<Rightarrow> pyexn \<Rightarrow> pydict" where
  "routing_error py e =
     [(''error'', PStr ''Sorry, something went wrong while routing your request. Please try again later.''),
      (''details'', PStr (exn_str py e))]"

text \<open>The agent type \<^verbatim>\<open>route_task\<close> settles on before it looks the agent up.\<close>

definition final_agent_type :: "pylib \<Rightarrow> orchestrator \<Rightarrow> pydict \<Rightarrow> pyexn + pyval" where
  "final_agent_type py self task =
     (let agent_type = dict_get task ''type'' in
      if gemini_model self \<noteq> None then
        (let determined_agent_type = get_agent_type_from_gemini py self task in
         case (if truthy determined_agent_type then agents_has self determined_agent_type
               else Inr False) of
           Inl e \<Rightarrow> Inl e
         | Inr True \<Rightarrow> Inr determined_agent_type
         | Inr False \<Rightarrow>
             Inr (if \<not> truthy agent_type then PStr (default_agent_type self) else agent_type))
      else Inr agent_type)"

text \<open>The body of the outer \<^verbatim>\<open>try\<close> of \<^verbatim>\<open>route_task\<close>.\<close>

definition route_body :: "pylib \<Rightarrow> orchestrator \<Rightarrow> pydict \<Rightarrow> pyexn + (pydict \<times> call list)" where
  "route_body py self task =
     (case final_agent_type py self task of
        Inl e \<Rightarrow> Inl e
      | Inr agent_type \<Rightarrow>
          (case agents_get self agent_type of
             Inl e \<Rightarrow> Inl e
           | Inr None \<Rightarrow> Inr (agent_not_found_error py self agent_type, [])
           | Inr (Some agent) \<Rightarrow>
               (case agent task of
                  Inr result \<Rightarrow> Inr (result, [(agent_type, task)])
                | Inl e \<Rightarrow> Inr (agent_issue_error py agent_type e, [(agent_type, task)]))))"

definition route_task :: "pylib \<Rightarrow> orchestrator \<Rightarrow> pydict \<Rightarrow> pydict \<times> call list" where
  "route_task py self task =
     (case route_body py self task of
        Inr r \<Rightarrow> r
      | Inl e \<Rightarrow> (routing_error py e, []))"


section \<open>The agents and the start-up wiring\<close>

text \<open>
  The stub agents of \<^verbatim>\<open>src/agents\<close> return a fixed report. \<^verbatim>\<open>WebSearchAgent.handle\<close>
  performs an HTTP request; its handler is a parameter of the wiring.
\<close>

definition DataRetrievalAgent_handle :: handler where
  "DataRetrievalAgent_handle task =
     Inr [(''report'', PStr ''DataRetrievalAgent is a stub. Implement your logic here.'')]"

definition ReportGenerationAgent_handle :: handler where
  "ReportGenerationAgent_handle task =
     Inr [(''report'', PStr ''ReportGenerationAgent is a stub. Implement your logic here.'')]"

definition AnalysisDashboardAgent_handle :: handler where
  "AnalysisDashboardAgent_handle task =
     Inr [(''report'', PStr ''AnalysisDashboardAgent is a stub. Implement your logic here.'')]"

definition LLMResponseAgent_handle :: "generative_model option \<Rightarrow> handler" where
  "LLMResponseAgent_handle model task =
     (case dict_get_default task ''payload'' (PDict []) of
        PDict payload \<Rightarrow>
          (let prompt = dict_get_default payload ''query'' (PStr []) in
           if \<not> truthy prompt then Inr [(''report'', PStr ''No input provided.''), (''data'', PList [])]
           else (case model of
                   None \<Rightarrow> Inr [(''report'', PStr ''LLM is not available.''), (''data'', PList [])]
                 | Some m \<Rightarrow>
                     (case m prompt of
                        Inl e \<Rightarrow> Inl e
                      | Inr text \<Rightarrow> Inr [(''report'', PStr text), (''data'', PList [])])))
      | v \<Rightarrow> Inl (AttributeError ([CHR 0x27] @ type_name v @ [CHR 0x27] @
                  '' object has no attribute '' @ [CHR 0x27] @ ''get'' @ [CHR 0x27])))"

definition DummyLLMResponseAgent_handle :: handler where
  "DummyLLMResponseAgent_handle task =
     Inr [(''report'', PStr ''LLM is not available.''), (''data'', PList [])]"

text \<open>The table \<^verbatim>\<open>agents\<close> of \<^verbatim>\<open>src/orchestrator/instance.py\<close>, as first built.\<close>

definition instance_agents :: "handler \<Rightarrow> (string \<times> agent_entry) list" where
  "instance_agents web_search_handle =
     [(''web_search'',
        \<lparr> entry_instance = Some web_search_handle,
          entry_description = ''Handles web search queries using external search APIs (Google, Bing, etc.), returns summarized and formatted results for Slack. Supports configurable number of results.'' \<rparr>),
      (''data_retrieval'',
        \<lparr> entry_instance = Some DataRetrievalAgent_handle,
          entry_description = ''Handles data retrieval from databases, APIs, or files. Supports SQL/NoSQL queries, API calls, and returns structured data for downstream agents.'' \<rparr>),
      (''report_generation'',
        \<lparr> entry_instance = Some ReportGenerationAgent_handle,
          entry_description = ''Generates reports from provided data or queries. Supports Markdown, PDF, and CSV output. Can use LLM for summarization and content generation.'' \<rparr>),
      (''analysis_dashboard'',
        \<lparr> entry_instance = Some AnalysisDashboardAgent_handle,
          entry_description = ''Performs data analysis and generates dashboards or visualizations. Accepts structured data, applies statistical or pattern analysis, and outputs results as Slack-formatted summaries or images.'' \<rparr>),
      (''llm_response'',
        \<lparr> entry_instance = None,
          entry_description = ''Directly answers user queries using the Gemini LLM for conversational or general-purpose responses.'' \<rparr>)]"

text \<open>
  The statements after the construction: the slot \<^verbatim>\<open>llm_response\<close> of
  \<^verbatim>\<open>orchestrator.agents\<close> receives the Gemini-backed agent when the model exists and
  the dummy agent otherwise.
\<close>

definition late_bind :: "orchestrator \<Rightarrow> orchestrator" where
  "late_bind orch =
     (case gemini_model orch of
        Some m \<Rightarrow>
          orch\<lparr> agents := dict_set ''llm_response'' (Some (LLMResponseAgent_handle (Some m))) (agents orch) \<rparr>
      | None \<Rightarrow>
          orch\<lparr> agents := dict_set ''llm_response'' (Some DummyLLMResponseAgent_handle) (agents orch) \<rparr>)"

definition constructed_orchestrator :: "pyenv \<Rightarrow> handler \<Rightarrow> orchestrator" where
  "constructed_orchestrator env web_search_handle =
     Orchestrator_init env (instance_agents web_search_handle) (getenv_GEMINI_API_KEY env) ''llm_response''"

definition instance_orchestrator :: "pyenv \<Rightarrow> handler \<Rightarrow> orchestrator" where
  "instance_orchestrator env web_search_handle =
     late_bind (constructed_orchestrator env web_search_handle)"

section \<open>The chaining injection on a store of dict objects\<close>

text \<open>
  Python dicts are objects: \<^verbatim>\<open>sub_task.copy()\<close> makes a new dict whose values are the
  same objects as before. Where aliasing matters, a dict is an address into a store, and
  a value refers to a dict by its address. Lists are not mutated by the injection and
  stay values.
\<close>

type_synonym addr = nat

datatype oval =
    ONone
  | OBool bool
  | OInt int
  | OStr string
  | OList "oval list"
  | ORef addr

type_synonym obj = "(string \<times> oval) list"

type_synonym store = "obj list"

definition alloc :: "obj \<Rightarrow> store \<Rightarrow> addr \<times> store" where
  "alloc d st = (length st, st @ [d])"

fun otype_name :: "oval \<Rightarrow> string" where
  "otype_name ONone = ''NoneType''"
| "otype_name (OBool b) = ''bool''"
| "otype_name (OInt n) = ''int''"
| "otype_name (OStr s) = ''str''"
| "otype_name (OList xs) = ''list''"
| "otype_name (ORef a) = ''dict''"

text \<open>
  Lines 260 to 262 of \<^verbatim>\<open>handle_task\<close> on the store: the shallow copy of the sub-task at
  \<open>sub_task\<close>, the fresh \<^verbatim>\<open>{}\<close> that \<^verbatim>\<open>setdefault\<close> stores only when the key is missing, and
  the assignment into the dict that the copy's \<^verbatim>\<open>payload\<close> refers to. The result is the
  address of the copy, which is the task dispatched, and the new store.
\<close>

definition chain_input_store :: "store \<Rightarrow> addr \<Rightarrow> oval \<Rightarrow> pyexn + (addr \<times> store)" where
  "chain_input_store st sub_task prev =
     (let (copied, st1) = alloc (st ! sub_task) st;
          (fresh, st2) = alloc [] st1;
          st3 = (if dict_has (st2 ! copied) ''payload'' then st2
                 else st2[copied := dict_set ''payload'' (ORef fresh) (st2 ! copied)])
      in case map_of (st3 ! copied) ''payload'' of
           None \<Rightarrow> Inl (KeyError ''payload'')
         | Some (ORef payload) \<Rightarrow>
             Inr (copied, st3[payload := dict_set ''input'' prev (st3 ! payload)])
         | Some (OList xs) \<Rightarrow> Inl (TypeError ''list indices must be integers or slices, not str'')
         | Some v \<Rightarrow> Inl (TypeError ([CHR 0x27] @ otype_name v @ [CHR 0x27] @
                                       '' object does not support item assignment'')))"


section \<open>Example inputs\<close>

text \<open>
  A \<^verbatim>\<open>repr\<close> for values without characters that need escaping, a \<^verbatim>\<open>literal_eval\<close> given
  by a finite table from texts to the values they denote, the white space functions for
  ASCII text, the echoing agent of
  \<^verbatim>\<open>src/tests/test_orchestrator.py\<close>, an agent that raises, and an orchestrator over them
  whose slot \<^verbatim>\<open>llm_response\<close> is empty.
\<close>

fun digits :: "nat \<Rightarrow> string" where
  "digits n =
     (if n < 10 then [''0123456789'' ! n] else digits (n div 10) @ [''0123456789'' ! (n mod 10)])"

declare digits.simps [simp del]

fun example_repr :: "pyval \<Rightarrow> string" where
  "example_repr PNone = ''None''"
| "example_repr (PBool b) = (if b then ''True'' else ''False'')"
| "example_repr (PInt n) = (if n < 0 then ''-'' @ digits (nat (- n)) else digits (nat n))"
| "example_repr (PStr s) = [CHR 0x27] @ s @ [CHR 0x27]"
| "example_repr (PList xs) = ''['' @ join '', '' (map example_repr xs) @ '']''"
| "example_repr (PDict d) =
     ''{'' @ join '', '' (map (\<lambda>kv. [CHR 0x27] @ fst kv @ [CHR 0x27] @ '': '' @ example_repr (snd kv)) d) @ ''}''"

definition example_py :: "(string \<times> pyval) list \<Rightarrow> pylib" where
  "example_py table =
     \<lparr> literal_eval = (\<lambda>s. case map_of table s of
                                  Some v \<Rightarrow> Inr v
                                | None \<Rightarrow> Inl (HandlerError ''malformed node or string'')),
       repr = example_repr,
       strip = ascii_strip,
       split_ws = ascii_split_ws \<rparr>"

definition echo_handle :: "string \<Rightarrow> handler" where
  "echo_handle name task = Inr [(''handled_by'', PStr name), (''task'', PDict task)]"

definition raising_handle :: handler where
  "raising_handle task = Inl (HandlerError ''boom'')"

definition example_orchestrator :: "generative_model option \<Rightarrow> orchestrator" where
  "example_orchestrator model =
     \<lparr> agents = [(''web_search'', Some (echo_handle ''WebSearchAgent'')),
                 (''data_retrieval'', Some (echo_handle ''DataRetrievalAgent'')),
                 (''report_generation'', Some (echo_handle ''ReportGenerationAgent'')),
                 (''analysis_dashboard'', Some raising_handle),
                 (''llm_response'', None)],
       agent_descriptions = [(''web_search'', ''searches''),
                 (''data_retrieval'', ''retrieves''),
                 (''report_generation'', ''reports''),
                 (''analysis_dashboard'', ''analyses''),
                 (''llm_response'', ''answers'')],
       gemini_api_key = None,
       default_agent_type = ''llm_response'',
       gemini_model = model \<rparr>"

definition example_task :: pydict where
  "example_task = [(''type'', PStr ''web_search''), (''payload'', PDict [(''query'', PStr ''q'')])]"

text \<open>An oracle that answers every prompt with the same text.\<close>

definition replying :: "string \<Rightarrow> generative_model" where
  "replying text prompt = Inr text"

text \<open>
  The selection rule in the words of the specification: a sub-task pre-populates the
  chaining key when its payload has the key \<^verbatim>\<open>input\<close>, and the strategy is concurrent
  exactly when there is more than one sub-task and none after the first pre-populates it.
\<close>

definition spec_prepopulates :: "pydict \<Rightarrow> bool" where
  "spec_prepopulates sub_task =
     (case map_of sub_task ''payload'' of Some (PDict payload) \<Rightarrow> dict_has payload ''input'' | _ \<Rightarrow> False)"

definition spec_select_strategy :: "pydict list \<Rightarrow> strategy" where
  "spec_select_strategy sub_tasks =
     (if length sub_tasks > 1 \<and> list_all (\<lambda>st. \<not> spec_prepopulates st) (tl sub_tasks)
      then CONCURRENT else SEQUENTIAL)"

text \<open>Two sub-tasks; the second binds the chaining key to the empty string.\<close>

definition empty_input_sub_tasks :: "pydict list" where
  "empty_input_sub_tasks =
     [[(''type'', PStr ''web_search''), (''payload'', PDict [(''query'', PStr ''q'')])],
      [(''type'', PStr ''report_generation''), (''payload'', PDict [(''input'', PStr [])])]]"

text \<open>Three sub-tasks as the test of the repository decomposes them; none names the chaining key.\<close>

definition independent_sub_tasks :: "pydict list" where
  "independent_sub_tasks =
     [[(''type'', PStr ''data_retrieval''), (''payload'', PDict [(''source'', PStr ''database'')])],
      [(''type'', PStr ''web_search''), (''payload'', PDict [(''analysis_type'', PStr ''trend'')])],
      [(''type'', PStr ''report_generation''), (''payload'', PDict [(''report_format'', PStr ''pdf'')])]]"

text \<open>A reply that decomposes into two sub-tasks, the second without the key \<^verbatim>\<open>payload\<close>.\<close>

definition missing_payload_reply :: string where
  "missing_payload_reply =
     ''[{'type': 'web_search', 'payload': {}}, {'type': 'data_retrieval'}]''"

definition missing_payload_sub_tasks :: "pydict list" where
  "missing_payload_sub_tasks =
     [[(''type'', PStr ''web_search''), (''payload'', PDict [])],
      [(''type'', PStr ''data_retrieval'')]]"

text \<open>A fenced reply that decomposes into the three independent sub-tasks above.\<close>

definition independent_reply :: string where
  "independent_reply =
     ''```python'' @ [CHR 0x0A] @
     ''[{'type': 'data_retrieval', 'payload': {'source': 'database'}}, '' @
     ''{'type': 'web_search', 'payload': {'analysis_type': 'trend'}}, '' @
     ''{'type': 'report_generation', 'payload': {'report_format': 'pdf'}}]'' @ [CHR 0x0A] @
     ''```''"

definition independent_literal :: string where
  "independent_literal =
     ''[{'type': 'data_retrieval', 'payload': {'source': 'database'}}, '' @
     ''{'type': 'web_search', 'payload': {'analysis_type': 'trend'}}, '' @
     ''{'type': 'report_generation', 'payload': {'report_format': 'pdf'}}]''"

text \<open>The texts that the example \<^verbatim>\<open>literal_eval\<close> parses, with their values.\<close>

definition example_literals :: "(string \<times> pyval) list" where
  "example_literals =
     [(''[]'', PList []),
      (missing_payload_reply, PList (map PDict missing_payload_sub_tasks)),
      (independent_literal, PList (map PDict independent_sub_tasks))]"

text \<open>Two environments: one without the \<^verbatim>\<open>genai\<close> module and without a key, one with both.\<close>

definition bare_env :: pyenv where
  "bare_env = \<lparr> genai = None, getenv_GEMINI_API_KEY = None \<rparr>"

definition make_model :: "string \<Rightarrow> pyexn + generative_model" where
  "make_model key = Inr (replying ''web_search'')"

definition gemini_env :: pyenv where
  "gemini_env = \<lparr> genai = Some make_model, getenv_GEMINI_API_KEY = Some ''key'' \<rparr>"

text \<open>A task whose type is no registered type id.\<close>

definition unknown_task :: pydict where
  "unknown_task = [(''type'', PStr ''nonexistent_agent''), (''payload'', PDict [])]"

text \<open>
  Three sub-tasks for the sequential strategy: the second names an unregistered type
  and binds the chaining key, which makes the strategy sequential.
\<close>

definition stale_chain_sub_tasks :: "pydict list" where
  "stale_chain_sub_tasks =
     [[(''type'', PStr ''web_search''), (''payload'', PDict [(''query'', PStr ''q'')])],
      [(''type'', PStr ''nope''), (''payload'', PDict [(''input'', PStr ''x'')])],
      [(''type'', PStr ''report_generation''), (''payload'', PDict [(''format'', PStr ''pdf'')])]]"

text \<open>Three sub-tasks for the sequential strategy whose handlers all succeed.\<close>

definition chained_sub_tasks :: "pydict list" where
  "chained_sub_tasks =
     [[(''type'', PStr ''data_retrieval''), (''payload'', PDict [(''source'', PStr ''database'')])],
      [(''type'', PStr ''web_search''), (''payload'', PDict [(''input'', PStr ''previous'')])],
      [(''type'', PStr ''report_generation''), (''payload'', PDict [(''format'', PStr ''pdf'')])]]"

text \<open>
  A store with a template sub-task at address 0, its payload at address 1 and the
  previous result at address 2.
\<close>

definition template_store :: store where
  "template_store =
     [[(''type'', OStr ''report_generation''), (''payload'', ORef 1)],
      [(''format'', OStr ''pdf'')],
      [(''report'', OStr ''found'')]]"

section \<open>Properties of the library functions\<close>

lemma startswith_prefix: "startswith s p = prefix p s"
  by (induction s p rule: startswith.induct) auto

text \<open>\<open>str_contains\<close> decides whether \<open>sub\<close> occurs in \<open>s\<close> as a contiguous piece.\<close>

lemma str_contains_sublist: "str_contains sub s = sublist sub s"
proof (induction s)
  case Nil
  show ?case by simp
next
  case (Cons c cs)
  show ?case
  proof (cases sub)
    case Nil
    then show ?thesis by simp
  next
    case (Cons x xs)
    then show ?thesis
      using Cons.IH by (simp add: startswith_prefix sublist_Cons_right)
  qed
qed

lemma example_py_simps:
  "strip (example_py table) = ascii_strip"
  "split_ws (example_py table) = ascii_split_ws"
  "repr (example_py table) = example_repr"
  by (simp_all add: example_py_def)

section \<open>The classifier\<close>

text \<open>
  Claim C9, as amended. Without an oracle, \<^verbatim>\<open>classify_task\<close> is the keyword mapping on the
  lower-cased text, in the fixed order: "search" gives \<^verbatim>\<open>web_search\<close>; otherwise "data" or
  "fetch" gives \<^verbatim>\<open>data_retrieval\<close>; otherwise "report" gives \<^verbatim>\<open>report_generation\<close>;
  otherwise "dashboard" or "analy" gives \<^verbatim>\<open>analysis_dashboard\<close>; otherwise the configured
  default type. The payload is \<^verbatim>\<open>{query: text}\<close>, the user is the given user, and the
  context is the mapping \<^verbatim>\<open>{channel: channel}\<close> built from the given channel.
\<close>

theorem classify_task_fallback:
  assumes "gemini_model self = None"
  shows "classify_task py self text user channel =
     [(''type'', PStr
         (let lowered = lower (case text of None \<Rightarrow> [] | Some s \<Rightarrow> s) in
          if sublist ''search'' lowered then ''web_search''
          else if sublist ''data'' lowered \<or> sublist ''fetch'' lowered then ''data_retrieval''
          else if sublist ''report'' lowered then ''report_generation''
          else if sublist ''dashboard'' lowered \<or> sublist ''analy'' lowered
            then ''analysis_dashboard''
          else default_agent_type self)),
      (''payload'', PDict [(''query'', opt_str text)]),
      (''user'', opt_str user),
      (''context'', PDict [(''channel'', opt_str channel)])]"
  using assms
  by (simp add: classify_task_def rule_based_task_def rule_based_type_def
      str_contains_sublist Let_def)

lemma lower_example:
  "lower ''Generate a sales REPORT for last quarter'' = ''generate a sales report for last quarter''"
  by (simp add: lower_def lower_char_def)

theorem classify_task_fallback_witness:
  "gemini_model (example_orchestrator None) = None \<and>
   classify_task (example_py []) (example_orchestrator None)
       (Some ''Generate a sales REPORT for last quarter'') (Some ''U1'') (Some ''C1'') =
     [(''type'', PStr ''report_generation''),
      (''payload'', PDict [(''query'', PStr ''Generate a sales REPORT for last quarter'')]),
      (''user'', PStr ''U1''),
      (''context'', PDict [(''channel'', PStr ''C1'')])]"
proof -
  have h: "gemini_model (example_orchestrator None) = None"
    by (simp add: example_orchestrator_def)
  have s: "\<not> sublist ''search'' ''generate a sales report for last quarter''"
     "\<not> sublist ''data'' ''generate a sales report for last quarter''"
     "\<not> sublist ''fetch'' ''generate a sales report for last quarter''"
     "sublist ''report'' ''generate a sales report for last quarter''"
    unfolding str_contains_sublist [symmetric] by simp_all
  show ?thesis
    using h classify_task_fallback [OF h, of "example_py []"
        "Some ''Generate a sales REPORT for last quarter''" "Some ''U1''" "Some ''C1''"]
    by (simp add: lower_example s opt_str_def Let_def)
qed

text \<open>
  \<^verbatim>\<open>classify_task\<close> receives a channel, not a context: the context of the returned task is
  a mapping that holds the channel, and is not the input itself.
\<close>

theorem classify_task_context_counterexample:
  "dict_get (classify_task (example_py []) (example_orchestrator None)
               (Some ''Generate a sales REPORT for last quarter'') (Some ''U1'') (Some ''C1''))
            ''context'' = PDict [(''channel'', PStr ''C1'')] \<and>
   dict_get (classify_task (example_py []) (example_orchestrator None)
               (Some ''Generate a sales REPORT for last quarter'') (Some ''U1'') (Some ''C1''))
            ''context'' \<noteq> PStr ''C1''"
  by (simp add: classify_task_def rule_based_task_def example_orchestrator_def dict_get_def
      opt_str_def)

section \<open>Aggregation\<close>

lemma dict_has_keys: "dict_has d k \<longleftrightarrow> k \<in> fst ` set d"
  by (simp add: dict_has_def map_of_eq_None_iff)

text \<open>
  Claim C5, as amended. For the list of per-sub-task results, \<^verbatim>\<open>handle_task\<close> returns:
  the error \<^verbatim>\<open>No results generated from task execution.\<close> for the empty list; the last
  result when no result has the key \<^verbatim>\<open>error\<close> (for a single such result, that result
  itself, unwrapped); and otherwise the composite with the key \<^verbatim>\<open>final_status\<close> bound to
  \<^verbatim>\<open>Completed with errors or multiple results\<close> and the key \<^verbatim>\<open>results\<close> bound to all
  results in their order.
\<close>

theorem aggregate_amended:
  "aggregate rs =
     (if rs = [] then [(''error'', PStr ''No results generated from task execution.'')]
      else if \<forall>r \<in> set rs. ''error'' \<notin> fst ` set r then last rs
      else [(''final_status'', PStr ''Completed with errors or multiple results''),
            (''results'', PList (map PDict rs))])"
proof (cases rs)
  case Nil
  then show ?thesis by (simp add: aggregate_def)
next
  case (Cons r rest)
  show ?thesis
  proof (cases rest)
    case Nil
    with Cons show ?thesis by (simp add: aggregate_def dict_has_keys)
  next
    case (Cons r' rest')
    with \<open>rs = r # rest\<close> show ?thesis
      by (simp add: aggregate_def dict_has_keys list_all_iff)
  qed
qed

theorem aggregate_amended_witness:
  "aggregate [[(''report'', PStr ''a'')], [(''report'', PStr ''b'')]] = [(''report'', PStr ''b'')] \<and>
   aggregate [[(''report'', PStr ''a'')], [(''error'', PStr ''boom'')]] =
     [(''final_status'', PStr ''Completed with errors or multiple results''),
      (''results'', PList [PDict [(''report'', PStr ''a'')], PDict [(''error'', PStr ''boom'')]])] \<and>
   aggregate [] = [(''error'', PStr ''No results generated from task execution.'')]"
  using aggregate_amended [of "[[(''report'', PStr ''a'')], [(''report'', PStr ''b'')]]"]
        aggregate_amended [of "[[(''report'', PStr ''a'')], [(''error'', PStr ''boom'')]]"]
        aggregate_amended [of "[]"]
  by simp

text \<open>
  The composite of a single failed result has no key \<^verbatim>\<open>status\<close>: the claim's field
  \<^verbatim>\<open>status\<close> with the value \<^verbatim>\<open>completed_with_errors_or_multiple\<close> is not what is returned.
\<close>

theorem aggregate_status_counterexample:
  "aggregate [[(''error'', PStr ''boom'')]] =
     [(''final_status'', PStr ''Completed with errors or multiple results''),
      (''results'', PList [PDict [(''error'', PStr ''boom'')]])] \<and>
   map_of (aggregate [[(''error'', PStr ''boom'')]]) ''status'' = None"
  by (simp add: aggregate_def dict_has_def)

section \<open>Strategy selection\<close>

lemma upt_Suc_shift: "[0..<Suc n] = 0 # map Suc [0..<n]"
  by (simp only: upt_conv_Cons [of 0 "Suc n"] map_Suc_upt zero_less_Suc)

lemma map_over_indices: "map (\<lambda>i. g (xs ! i)) [0..<length xs] = map g xs"
proof -
  have "map g xs = map g (map ((!) xs) [0..<length xs])"
    by (simp only: map_nth)
  also have "\<dots> = map (\<lambda>i. g (xs ! i)) [0..<length xs]"
    by (simp only: map_map o_def)
  finally show ?thesis by (rule sym)
qed

lemma independent_at_Suc:
  "independent_at (st0 # rest) (Suc i) = independent_at [st0, rest ! i] 1"
  by (simp add: independent_at_def)

text \<open>
  The generator skips the first sub-task and tests every later one the same way,
  whatever its index.
\<close>

lemma can_run_concurrent_Cons:
  "can_run_concurrent (st0 # rest) = py_all (map (\<lambda>st. independent_at [st0, st] 1) rest)"
proof -
  have "map (independent_at (st0 # rest)) [0..<length (st0 # rest)] =
        independent_at (st0 # rest) 0 #
        map (\<lambda>i. independent_at (st0 # rest) (Suc i)) [0..<length rest]"
    by (simp only: length_Cons upt_Suc_shift list.map map_map o_def)
  also have "\<dots> = Inr True # map (\<lambda>i. independent_at [st0, rest ! i] 1) [0..<length rest]"
    by (simp only: independent_at_Suc) (simp add: independent_at_def)
  also have "map (\<lambda>i. independent_at [st0, rest ! i] 1) [0..<length rest] =
             map (\<lambda>st. independent_at [st0, st] 1) rest"
    by (rule map_over_indices)
  finally show ?thesis by (simp add: can_run_concurrent_def)
qed

lemma py_all_wellformed:
  assumes "\<forall>st \<in> set rest. \<exists>p. map_of st ''payload'' = Some (PDict p)"
  shows "py_all (map (\<lambda>st. independent_at [st0, st] 1) rest) =
         Inr (\<forall>st \<in> set rest. \<not> truthy (dict_get (the_dict (dict_get st ''payload'')) ''input''))"
  using assms
proof (induction rest)
  case Nil
  show ?case by simp
next
  case (Cons st rest)
  then obtain p where p: "map_of st ''payload'' = Some (PDict p)" by auto
  from Cons show ?case
    by (auto simp add: independent_at_def p dict_get_def)
qed

text \<open>
  Claim C7, as amended. When every sub-task after the first has a payload that is a
  mapping, \<^verbatim>\<open>handle_task\<close> selects the concurrent strategy if and only if there is more
  than one sub-task and, in every sub-task after the first, the chaining key \<^verbatim>\<open>input\<close>
  of the payload is absent or bound to a falsy value; in every other such case it
  selects the sequential strategy.
\<close>

theorem select_strategy_amended:
  assumes "\<forall>st \<in> set (tl sub_tasks). \<exists>p. map_of st ''payload'' = Some (PDict p)"
  shows "select_strategy sub_tasks =
     Inr (if length sub_tasks > 1 \<and>
             (\<forall>st \<in> set (tl sub_tasks).
                \<not> truthy (dict_get (the_dict (dict_get st ''payload'')) ''input''))
          then CONCURRENT else SEQUENTIAL)"
proof (cases sub_tasks)
  case Nil
  then show ?thesis by (simp add: select_strategy_def can_run_concurrent_def)
next
  case (Cons st0 rest)
  with assms have "\<forall>st \<in> set rest. \<exists>p. map_of st ''payload'' = Some (PDict p)" by simp
  from py_all_wellformed [OF this] Cons show ?thesis
    by (simp add: select_strategy_def can_run_concurrent_Cons)
qed

theorem select_strategy_amended_witness:
  "select_strategy independent_sub_tasks = Inr CONCURRENT \<and>
   select_strategy [example_task] = Inr SEQUENTIAL"
proof -
  have h1: "\<forall>st \<in> set (tl independent_sub_tasks). \<exists>p. map_of st ''payload'' = Some (PDict p)"
    by (simp add: independent_sub_tasks_def)
  have h2: "\<forall>st \<in> set (tl [example_task]). \<exists>p. map_of st ''payload'' = Some (PDict p)"
    by simp
  show ?thesis
    using select_strategy_amended [OF h1] select_strategy_amended [OF h2]
    by (simp add: independent_sub_tasks_def dict_get_def)
qed

text \<open>
  The second sub-task pre-populates the chaining key, with the empty string: the rule of
  the specification selects the sequential strategy, the program the concurrent one.
\<close>

theorem select_strategy_counterexample:
  "spec_prepopulates (empty_input_sub_tasks ! 1) \<and>
   spec_select_strategy empty_input_sub_tasks = SEQUENTIAL \<and>
   select_strategy empty_input_sub_tasks = Inr CONCURRENT"
  by (simp add: select_strategy_def can_run_concurrent_Cons empty_input_sub_tasks_def
      independent_at_def dict_get_def spec_select_strategy_def spec_prepopulates_def dict_has_def)

section \<open>Decomposition\<close>

lemma list_all_is_dict: "list_all is_dict xs \<longleftrightarrow> (\<exists>subs. xs = map PDict subs)"
proof
  assume "list_all is_dict xs"
  then have "xs = map PDict (map the_dict xs)"
    by (induction xs) (auto elim: is_dict.elims)
  then show "\<exists>subs. xs = map PDict subs" ..
next
  assume "\<exists>subs. xs = map PDict subs"
  then show "list_all is_dict xs" by (auto simp: list_all_iff)
qed

lemma the_dict_map: "map the_dict (map PDict subs) = subs"
  by (induction subs) auto

lemma decompose_no_oracle:
  "gemini_model self = None \<Longrightarrow> decompose_task py self task = [task]"
  by (simp add: decompose_task_def)

lemma decompose_parsed:
  assumes "gemini_model self = Some model"
    and "model (PStr (decompose_prompt py self task)) = Inr response"
    and "strip_fences py (strip py response) = Inr literal"
    and "literal_eval py literal = Inr (PList (map PDict subs))"
  shows "decompose_task py self task = subs"
proof -
  have d: "list_all is_dict (map PDict subs)"
    by (simp add: list_all_iff)
  have t: "map the_dict (map PDict subs) = subs"
    by (rule the_dict_map)
  show ?thesis
    by (simp add: decompose_task_def decompose_with_oracle_def assms d t del: map_map)
qed

lemma decompose_fallback:
  assumes m: "gemini_model self = Some model"
    and none: "\<nexists>response literal subs.
          model (PStr (decompose_prompt py self task)) = Inr response \<and>
          strip_fences py (strip py response) = Inr literal \<and>
          literal_eval py literal = Inr (PList (map PDict subs))"
  shows "decompose_task py self task = [task]"
proof (cases "model (PStr (decompose_prompt py self task))")
  case (Inl e)
  with m show ?thesis by (simp add: decompose_task_def decompose_with_oracle_def)
next
  case response: (Inr response)
  show ?thesis
  proof (cases "strip_fences py (strip py response)")
    case (Inl e)
    with m response show ?thesis by (simp add: decompose_task_def decompose_with_oracle_def)
  next
    case literal: (Inr literal)
    show ?thesis
    proof (cases "literal_eval py literal")
      case (Inl e)
      with m response literal show ?thesis
        by (simp add: decompose_task_def decompose_with_oracle_def)
    next
      case (Inr v)
      with none response literal have "\<nexists>subs. v = PList (map PDict subs)" by auto
      with m response literal Inr show ?thesis
        by (cases v) (auto simp add: decompose_task_def decompose_with_oracle_def list_all_is_dict)
    qed
  qed
qed

text \<open>
  Claim C2, as amended. \<^verbatim>\<open>decompose_task\<close> returns \<open>[task]\<close> when no oracle is configured.
  With an oracle it returns exactly the list that the reply denotes when the call, the
  removal of the code fence and the parse succeed and yield a list of mappings (a list
  that may be empty), and \<open>[task]\<close> in every other case. So the returned list has at
  least one element unless the reply denotes the empty list.
\<close>

theorem decompose_task_amended:
  "(gemini_model self = None \<longrightarrow> decompose_task py self task = [task]) \<and>
   (\<forall>model. gemini_model self = Some model \<longrightarrow>
      (\<forall>response literal subs.
          model (PStr (decompose_prompt py self task)) = Inr response \<longrightarrow>
          strip_fences py (strip py response) = Inr literal \<longrightarrow>
          literal_eval py literal = Inr (PList (map PDict subs)) \<longrightarrow>
          decompose_task py self task = subs) \<and>
      ((\<nexists>response literal subs.
          model (PStr (decompose_prompt py self task)) = Inr response \<and>
          strip_fences py (strip py response) = Inr literal \<and>
          literal_eval py literal = Inr (PList (map PDict subs))) \<longrightarrow>
       decompose_task py self task = [task]))"
  using decompose_no_oracle [of self py task] decompose_parsed [of self _ py task]
    decompose_fallback [of self _ py task]
  by blast

lemma strip_empty_list: "ascii_strip ''[]'' = ''[]''"
  by (simp add: ascii_strip_def is_ascii_space_def)

text \<open>
  An oracle that answers \<^verbatim>\<open>[]\<close>: the reply is a list whose elements are all mappings, and
  the empty list is returned.
\<close>

theorem decompose_task_counterexample:
  "decompose_task (example_py example_literals) (example_orchestrator (Some (replying ''[]''))) example_task = [] \<and>
   \<not> 1 \<le> length (decompose_task (example_py example_literals) (example_orchestrator (Some (replying ''[]''))) example_task)"
  by (simp add: decompose_task_def decompose_with_oracle_def example_orchestrator_def replying_def
      example_py_simps strip_empty_list strip_fences_def)
     (simp add: example_py_def example_literals_def)

lemma strip_independent_reply: "ascii_strip independent_reply = independent_reply"
  by (simp add: ascii_strip_def is_ascii_space_def independent_reply_def)

lemma strip_fences_independent_reply:
  "strip_fences (example_py table) independent_reply = Inr independent_literal"
  by (simp add: strip_fences_def independent_reply_def independent_literal_def split_def index_def
      example_py_simps ascii_strip_def is_ascii_space_def)


theorem decompose_task_amended_witness:
  "decompose_task (example_py example_literals) (example_orchestrator None) example_task = [example_task] \<and>
   decompose_task (example_py example_literals) (example_orchestrator (Some (replying independent_reply)))
       example_task = independent_sub_tasks \<and>
   decompose_task (example_py example_literals) (example_orchestrator (Some (replying ''no list'')))
       example_task = [example_task]"
proof -
  let ?py = "example_py example_literals"
  have n: "gemini_model (example_orchestrator None) = None"
    by (simp add: example_orchestrator_def)
  have m: "gemini_model (example_orchestrator (Some (replying independent_reply))) = Some (replying independent_reply)"
    by (simp add: example_orchestrator_def)
  have l: "literal_eval ?py independent_literal = Inr (PList (map PDict independent_sub_tasks))"
    by (simp add: example_py_def example_literals_def independent_literal_def missing_payload_reply_def)
  have m': "gemini_model (example_orchestrator (Some (replying ''no list''))) = Some (replying ''no list'')"
    by (simp add: example_orchestrator_def)
  have s': "strip ?py ''no list'' = ''no list''" "strip_fences ?py ''no list'' = Inr ''no list''"
    by (simp_all add: example_py_simps ascii_strip_def is_ascii_space_def strip_fences_def)
  have l': "literal_eval ?py ''no list'' = Inl (HandlerError ''malformed node or string'')"
    by (simp add: example_py_def example_literals_def independent_literal_def missing_payload_reply_def)
  have none: "\<nexists>response literal subs.
          replying ''no list'' (PStr (decompose_prompt ?py (example_orchestrator (Some (replying ''no list''))) example_task)) = Inr response \<and>
          strip_fences ?py (strip ?py response) = Inr literal \<and>
          literal_eval ?py literal = Inr (PList (map PDict subs))"
    by (auto simp add: replying_def s' l')
  from decompose_task_amended [of "example_orchestrator None" ?py example_task] n
  have 1: "decompose_task ?py (example_orchestrator None) example_task = [example_task]"
    by blast
  from decompose_task_amended [of "example_orchestrator (Some (replying independent_reply))" ?py example_task] m
    strip_independent_reply strip_fences_independent_reply [of example_literals] l
  have 2: "decompose_task ?py (example_orchestrator (Some (replying independent_reply))) example_task = independent_sub_tasks"
    by (simp add: replying_def example_py_simps)
  from decompose_task_amended [of "example_orchestrator (Some (replying ''no list''))" ?py example_task] m' none
  have 3: "decompose_task ?py (example_orchestrator (Some (replying ''no list''))) example_task = [example_task]"
    by simp
  from 1 2 3 show ?thesis by simp
qed

section \<open>The start-up wiring\<close>

lemma constructed_agents:
  "agents (constructed_orchestrator env web) =
     [(''web_search'', Some web),
      (''data_retrieval'', Some DataRetrievalAgent_handle),
      (''report_generation'', Some ReportGenerationAgent_handle),
      (''analysis_dashboard'', Some AnalysisDashboardAgent_handle),
      (''llm_response'', None)]"
  by (simp add: constructed_orchestrator_def Orchestrator_init_def instance_agents_def Let_def)

lemma constructed_default:
  "default_agent_type (constructed_orchestrator env web) = ''llm_response''"
  by (simp add: constructed_orchestrator_def Orchestrator_init_def Let_def)

lemma late_bind_agents:
  "agents (late_bind orch) =
     dict_set ''llm_response''
       (Some (case gemini_model orch of
                Some m \<Rightarrow> LLMResponseAgent_handle (Some m)
              | None \<Rightarrow> DummyLLMResponseAgent_handle))
       (agents orch)"
  by (simp add: late_bind_def split: option.splits)

lemma late_bind_other:
  "default_agent_type (late_bind orch) = default_agent_type orch"
  "gemini_model (late_bind orch) = gemini_model orch"
  by (simp_all add: late_bind_def split: option.splits)

lemma instance_agents_wired:
  "agents (instance_orchestrator env web) =
     [(''web_search'', Some web),
      (''data_retrieval'', Some DataRetrievalAgent_handle),
      (''report_generation'', Some ReportGenerationAgent_handle),
      (''analysis_dashboard'', Some AnalysisDashboardAgent_handle),
      (''llm_response'',
         Some (case gemini_model (constructed_orchestrator env web) of
                 Some m \<Rightarrow> LLMResponseAgent_handle (Some m)
               | None \<Rightarrow> DummyLLMResponseAgent_handle))]"
  by (simp add: instance_orchestrator_def late_bind_agents constructed_agents)

lemma instance_other:
  "default_agent_type (instance_orchestrator env web) = ''llm_response''"
  "gemini_model (instance_orchestrator env web) = gemini_model (constructed_orchestrator env web)"
  by (simp_all add: instance_orchestrator_def late_bind_other constructed_default)

lemma run_agent_found:
  assumes "agents_get self (dict_get task ''type'') = Inr (Some h)"
  shows "\<exists>r. run_agent py self task = Inr (r, [(dict_get task ''type'', task)])"
  using assms by (simp add: run_agent_def Let_def split: sum.splits)

text \<open>
  Claim C10. In \<^verbatim>\<open>src/orchestrator/instance.py\<close> the slot \<^verbatim>\<open>llm_response\<close> is empty when the
  orchestrator has been constructed. The statements that follow fill it, with the
  Gemini-backed agent when the model exists and with the dummy agent otherwise, and
  change no other slot. Afterwards every registered type id has a handler, the default
  type is \<^verbatim>\<open>llm_response\<close>, and a dispatch to it invokes its handler.
\<close>

theorem late_bound_slot_filled:
  "agents_get (constructed_orchestrator env web) (PStr ''llm_response'') = Inr None \<and>
   (\<forall>k \<in> set (map fst (agents (instance_orchestrator env web))).
       \<exists>h. agents_get (instance_orchestrator env web) (PStr k) = Inr (Some h)) \<and>
   (\<forall>k. k \<noteq> ''llm_response'' \<longrightarrow>
       agents_get (instance_orchestrator env web) (PStr k) =
       agents_get (constructed_orchestrator env web) (PStr k)) \<and>
   map fst (agents (instance_orchestrator env web)) =
     map fst (agents (constructed_orchestrator env web)) \<and>
   default_agent_type (instance_orchestrator env web) = ''llm_response'' \<and>
   agents_get (instance_orchestrator env web)
       (PStr (default_agent_type (instance_orchestrator env web))) =
     Inr (Some (case gemini_model (instance_orchestrator env web) of
                  Some m \<Rightarrow> LLMResponseAgent_handle (Some m)
                | None \<Rightarrow> DummyLLMResponseAgent_handle)) \<and>
   (\<forall>py task. dict_get task ''type'' = PStr ''llm_response'' \<longrightarrow>
       (\<exists>r. run_agent py (instance_orchestrator env web) task =
              Inr (r, [(PStr ''llm_response'', task)])))"
proof -
  have "\<exists>r. run_agent py (instance_orchestrator env web) task =
              Inr (r, [(PStr ''llm_response'', task)])"
    if t: "dict_get task ''type'' = PStr ''llm_response''" for py task
    using run_agent_found [of "instance_orchestrator env web" task _ py]
    by (simp add: t instance_agents_wired)
  then show ?thesis
    by (simp add: instance_agents_wired constructed_agents instance_other)
qed

lemma bare_model: "gemini_model (instance_orchestrator bare_env w) = None"
  by (simp add: instance_other constructed_orchestrator_def Orchestrator_init_def bare_env_def)

lemma gemini_model_ex: "gemini_model (instance_orchestrator gemini_env w) = Some (replying ''web_search'')"
  by (simp add: instance_other constructed_orchestrator_def Orchestrator_init_def gemini_env_def make_model_def)

theorem late_bound_slot_filled_witness:
  "agents_get (instance_orchestrator bare_env (echo_handle ''WebSearchAgent'')) (PStr ''llm_response'') =
     Inr (Some DummyLLMResponseAgent_handle) \<and>
   agents_get (instance_orchestrator gemini_env (echo_handle ''WebSearchAgent'')) (PStr ''llm_response'') =
     Inr (Some (LLMResponseAgent_handle (Some (replying ''web_search''))))"
proof -
  let ?B = "instance_orchestrator bare_env (echo_handle ''WebSearchAgent'')"
  let ?G = "instance_orchestrator gemini_env (echo_handle ''WebSearchAgent'')"
  have b: "agents_get ?B (PStr (default_agent_type ?B)) =
             Inr (Some (case gemini_model ?B of
                          Some m \<Rightarrow> LLMResponseAgent_handle (Some m)
                        | None \<Rightarrow> DummyLLMResponseAgent_handle))"
    and bd: "default_agent_type ?B = ''llm_response''"
    using late_bound_slot_filled [of bare_env "echo_handle ''WebSearchAgent''"] by blast+
  have g: "agents_get ?G (PStr (default_agent_type ?G)) =
             Inr (Some (case gemini_model ?G of
                          Some m \<Rightarrow> LLMResponseAgent_handle (Some m)
                        | None \<Rightarrow> DummyLLMResponseAgent_handle))"
    and gd: "default_agent_type ?G = ''llm_response''"
    using late_bound_slot_filled [of gemini_env "echo_handle ''WebSearchAgent''"] by blast+
  from b g show ?thesis
    unfolding bd gd bare_model gemini_model_ex by (simp only: option.case simp_thms)
qed

section \<open>Unregistered types\<close>

lemma agents_get_unregistered:
  "s \<notin> set (map fst (agents self)) \<Longrightarrow> agents_get self (PStr s) = Inr None"
  by (simp add: map_of_eq_None_iff [THEN iffD2])

lemma agents_has_unregistered:
  "s \<notin> set (map fst (agents self)) \<Longrightarrow> agents_has self (PStr s) = Inr False"
  by (simp add: map_of_eq_None_iff [THEN iffD2])

lemma agents_has_registered:
  "d \<in> set (map fst (agents self)) \<Longrightarrow> agents_has self (PStr d) = Inr True"
  by (simp add: map_of_eq_None_iff)

text \<open>Once the router has settled on a string, the slot of that string decides the result.\<close>

lemma route_task_settled:
  assumes "final_agent_type py self task = Inr (PStr t)"
  shows "route_task py self task =
     (case map_of (agents self) t of
        Some (Some h) \<Rightarrow>
          (case h task of
             Inr result \<Rightarrow> (result, [(PStr t, task)])
           | Inl e \<Rightarrow> (agent_issue_error py (PStr t) e, [(PStr t, task)]))
      | _ \<Rightarrow> (agent_not_found_error py self (PStr t), []))"
  using assms
  by (simp add: route_task_def route_body_def split: option.splits sum.splits)

lemma final_agent_type_no_oracle:
  "gemini_model self = None \<Longrightarrow> final_agent_type py self task = Inr (dict_get task ''type'')"
  by (simp add: final_agent_type_def)

text \<open>The oracle's suggestion is the type id it names, and the task's own type when it names none.\<close>

lemma get_agent_type_named:
  assumes "gemini_model self = Some model" and "oracle_names py self model task d"
  shows "get_agent_type_from_gemini py self task = PStr d"
  using assms
  by (force simp add: get_agent_type_from_gemini_def oracle_names_def index_def Let_def
      split: sum.splits list.splits)

lemma get_agent_type_not_named:
  assumes "gemini_model self = Some model" and "\<forall>d. \<not> oracle_names py self model task d"
  shows "get_agent_type_from_gemini py self task = dict_get task ''type''"
proof (cases "model (PStr (agent_type_prompt py self task))")
  case (Inl e)
  with assms(1) show ?thesis by (simp add: get_agent_type_from_gemini_def)
next
  case (Inr response)
  show ?thesis
  proof (cases "strip py response = []")
    case True
    with assms(1) Inr show ?thesis by (simp add: get_agent_type_from_gemini_def)
  next
    case False
    show ?thesis
    proof (cases "split_ws py (strip py response)")
      case Nil
      with assms(1) Inr False show ?thesis
        by (simp add: get_agent_type_from_gemini_def index_def)
    next
      case (Cons w ws)
      with assms(2) Inr False have "\<not> (w \<noteq> [] \<and> w \<in> set (map fst (agents self)))"
        by (auto simp add: oracle_names_def)
      with assms(1) Inr False Cons show ?thesis
        by (auto simp add: get_agent_type_from_gemini_def index_def Let_def)
    qed
  qed
qed

lemma final_agent_type_named:
  assumes "gemini_model self = Some model" and "oracle_names py self model task d"
  shows "final_agent_type py self task = Inr (PStr d)"
proof -
  from assms(2) have d: "d \<noteq> []" "d \<in> set (map fst (agents self))"
    by (simp_all add: oracle_names_def)
  with assms(1) get_agent_type_named [OF assms] show ?thesis
    by (simp add: final_agent_type_def agents_has_registered del: agents_has.simps)
qed

lemma final_agent_type_not_named:
  assumes "gemini_model self = Some model" and "\<forall>d. \<not> oracle_names py self model task d"
    and "dict_get task ''type'' = PStr s" and "s \<notin> set (map fst (agents self))"
  shows "final_agent_type py self task =
           Inr (PStr (if s = [] then default_agent_type self else s))"
  using assms(1,3) get_agent_type_not_named [OF assms(1,2)] agents_has_unregistered [OF assms(4)]
  by (simp add: final_agent_type_def del: agents_has.simps)

lemma not_found_text:
  "\<exists>msg. agent_not_found_error py self (PStr s) = [(''error'', PStr msg)] \<and>
         sublist s msg \<and>
         sublist (repr py (PList (map PStr (map fst (agents self))))) msg"
proof -
  let ?pre = "''Sorry, I couldn't find an agent for your request (type: '' @ [CHR 0x27]"
  let ?mid = "[CHR 0x27] @ ''). Available agents: ''"
  let ?lst = "repr py (PList (map PStr (map fst (agents self))))"
  let ?msg = "?pre @ s @ ?mid @ ?lst"
  have "agent_not_found_error py self (PStr s) = [(''error'', PStr ?msg)]"
    by (simp add: agent_not_found_error_def)
  moreover have "sublist s ?msg"
    unfolding sublist_def by (intro exI [of _ ?pre] exI [of _ "?mid @ ?lst"]) simp
  moreover have "sublist ?lst ?msg"
    unfolding sublist_def by (intro exI [of _ "?pre @ s @ ?mid"] exI [of _ "[]"]) simp
  ultimately show ?thesis by blast
qed

lemma run_agent_unregistered:
  assumes "dict_get task ''type'' = PStr s" and "s \<notin> set (map fst (agents self))"
  shows "run_agent py self task = Inr ([(''error'', PStr (''No agent for type: '' @ s))], [])"
  using assms by (simp add: run_agent_def agents_get_unregistered no_agent_error_def del: agents_get.simps)

lemma seq_step_unregistered:
  assumes "dict_get task ''type'' = PStr s" and "s \<notin> set (map fst (agents self))"
  shows "seq_step py self idx task st =
           Inr (st\<lparr> results := results st @ [[(''error'', PStr (''No agent for type: '' @ s))]] \<rparr>)"
  using assms by (simp add: seq_step_def agents_get_unregistered no_agent_error_def del: agents_get.simps)

text \<open>
  Claim C8, as amended. Let the type of a task be a string \<open>s\<close> that is no registered type
  id. Without an oracle, \<^verbatim>\<open>route_task\<close> invokes no handler and returns the error for \<open>s\<close>,
  whose text contains the type and the \<^verbatim>\<open>repr\<close> of the list of all registered type ids.
  With an oracle, \<^verbatim>\<open>route_task\<close> settles on a type \<open>t\<close>: the type id that the oracle
  names, if it names one, and otherwise \<open>s\<close>, or the default type when \<open>s\<close> is empty.
  When the slot of \<open>t\<close> holds a handler, that handler is invoked on the task and its result
  is returned, or the error for its exception; when \<open>t\<close> has no slot or an empty one, no
  handler is invoked and the error for \<open>t\<close> is returned. The dispatch of \<^verbatim>\<open>handle_task\<close>,
  in both strategies, invokes no handler and records the error \<^verbatim>\<open>No agent for type: \<close>
  followed by the type, without the list of type ids.
\<close>

theorem unregistered_type_amended:
  assumes "dict_get task ''type'' = PStr s" and "s \<notin> set (map fst (agents self))"
  shows
    "(gemini_model self = None \<longrightarrow>
        route_task py self task = (agent_not_found_error py self (PStr s), [])) \<and>
     (\<forall>model t.
        gemini_model self = Some model \<longrightarrow>
        (oracle_names py self model task t \<or>
         ((\<forall>d. \<not> oracle_names py self model task d) \<and>
          t = (if s = [] then default_agent_type self else s))) \<longrightarrow>
        (\<forall>h. map_of (agents self) t = Some (Some h) \<longrightarrow>
           route_task py self task =
             (case h task of
                Inr result \<Rightarrow> (result, [(PStr t, task)])
              | Inl e \<Rightarrow> (agent_issue_error py (PStr t) e, [(PStr t, task)]))) \<and>
        (map_of (agents self) t = None \<or> map_of (agents self) t = Some None \<longrightarrow>
           route_task py self task = (agent_not_found_error py self (PStr t), []))) \<and>
     (\<forall>t. \<exists>msg. agent_not_found_error py self (PStr t) = [(''error'', PStr msg)] \<and>
               sublist t msg \<and>
               sublist (repr py (PList (map PStr (map fst (agents self))))) msg) \<and>
     run_agent py self task = Inr ([(''error'', PStr (''No agent for type: '' @ s))], []) \<and>
     seq_step py self idx task st =
        Inr (st\<lparr> results := results st @ [[(''error'', PStr (''No agent for type: '' @ s))]] \<rparr>)"
proof -
  have none: "map_of (agents self) s = None"
    using assms(2) by (simp add: map_of_eq_None_iff)
  have 1: "route_task py self task = (agent_not_found_error py self (PStr s), [])"
    if "gemini_model self = None"
    using route_task_settled [of py self task s] final_agent_type_no_oracle [OF that, of py task]
      assms(1) none
    by simp
  have 2: "(\<forall>h. map_of (agents self) t = Some (Some h) \<longrightarrow>
           route_task py self task =
             (case h task of
                Inr result \<Rightarrow> (result, [(PStr t, task)])
              | Inl e \<Rightarrow> (agent_issue_error py (PStr t) e, [(PStr t, task)]))) \<and>
        (map_of (agents self) t = None \<or> map_of (agents self) t = Some None \<longrightarrow>
           route_task py self task = (agent_not_found_error py self (PStr t), []))"
    if m: "gemini_model self = Some model"
      and t: "oracle_names py self model task t \<or>
         ((\<forall>d. \<not> oracle_names py self model task d) \<and>
          t = (if s = [] then default_agent_type self else s))"
    for model t
  proof -
    from t have "final_agent_type py self task = Inr (PStr t)"
    proof
      assume "oracle_names py self model task t"
      from final_agent_type_named [OF m this] show ?thesis .
    next
      assume "(\<forall>d. \<not> oracle_names py self model task d) \<and>
          t = (if s = [] then default_agent_type self else s)"
      with final_agent_type_not_named [OF m _ assms] show ?thesis by simp
    qed
    from route_task_settled [OF this] show ?thesis by auto
  qed
  from 1 2 not_found_text [of py self] run_agent_unregistered [OF assms, of py]
    seq_step_unregistered [OF assms, of py idx st]
  show ?thesis by blast
qed

theorem unregistered_type_amended_witness:
  "route_task (example_py []) (example_orchestrator None) unknown_task =
     (agent_not_found_error (example_py []) (example_orchestrator None) (PStr ''nonexistent_agent''), []) \<and>
   route_task (example_py []) (example_orchestrator (Some (replying ''web_search''))) unknown_task =
     ([(''handled_by'', PStr ''WebSearchAgent''), (''task'', PDict unknown_task)],
      [(PStr ''web_search'', unknown_task)]) \<and>
   route_task (example_py []) (example_orchestrator (Some (replying ''no idea''))) unknown_task =
     (agent_not_found_error (example_py []) (example_orchestrator (Some (replying ''no idea'')))
        (PStr ''nonexistent_agent''), []) \<and>
   run_agent (example_py []) (example_orchestrator None) unknown_task =
     Inr ([(''error'', PStr ''No agent for type: nonexistent_agent'')], [])"
proof -
  let ?py = "example_py []"
  let ?s0 = "\<lparr> results = [], prev_result = None, calls = [] \<rparr>"
  have t: "dict_get unknown_task ''type'' = PStr ''nonexistent_agent''"
    by (simp add: unknown_task_def dict_get_def)
  have u: "''nonexistent_agent'' \<notin> set (map fst (agents (example_orchestrator model)))" for model
    by (simp add: example_orchestrator_def)
  have n: "gemini_model (example_orchestrator None) = None"
    by (simp add: example_orchestrator_def)
  have m: "gemini_model (example_orchestrator (Some model)) = Some model" for model
    by (simp add: example_orchestrator_def)
  have named: "oracle_names ?py (example_orchestrator (Some (replying ''web_search'')))
                 (replying ''web_search'') unknown_task ''web_search''"
    by (simp add: oracle_names_def replying_def example_py_simps ascii_strip_def
        is_ascii_space_def ascii_split_ws_def example_orchestrator_def)
  have slot: "map_of (agents (example_orchestrator (Some (replying ''web_search'')))) ''web_search'' =
                Some (Some (echo_handle ''WebSearchAgent''))"
    by (simp add: example_orchestrator_def)
  have unnamed: "\<forall>d. \<not> oracle_names ?py (example_orchestrator (Some (replying ''no idea'')))
                 (replying ''no idea'') unknown_task d"
    by (auto simp add: oracle_names_def replying_def example_py_simps ascii_strip_def
        is_ascii_space_def ascii_split_ws_def example_orchestrator_def)
  have absent: "map_of (agents (example_orchestrator (Some (replying ''no idea'')))) ''nonexistent_agent'' = None"
    by (simp add: example_orchestrator_def)
  from unregistered_type_amended [OF t u, of None ?py 0 ?s0] n
  have 1: "route_task ?py (example_orchestrator None) unknown_task =
     (agent_not_found_error ?py (example_orchestrator None) (PStr ''nonexistent_agent''), [])"
    and 4: "run_agent ?py (example_orchestrator None) unknown_task =
     Inr ([(''error'', PStr ''No agent for type: nonexistent_agent'')], [])"
    by simp_all
  from unregistered_type_amended [OF t u, of "Some (replying ''web_search'')" ?py 0 ?s0]
    m [of "replying ''web_search''"] named slot
  have 2: "route_task ?py (example_orchestrator (Some (replying ''web_search''))) unknown_task =
     (case echo_handle ''WebSearchAgent'' unknown_task of
        Inr result \<Rightarrow> (result, [(PStr ''web_search'', unknown_task)])
      | Inl e \<Rightarrow> (agent_issue_error ?py (PStr ''web_search'') e, [(PStr ''web_search'', unknown_task)]))"
    by blast
  from unregistered_type_amended [OF t u, of "Some (replying ''no idea'')" ?py 0 ?s0]
    m [of "replying ''no idea''"] unnamed absent
  have 3: "route_task ?py (example_orchestrator (Some (replying ''no idea''))) unknown_task =
     (agent_not_found_error ?py (example_orchestrator (Some (replying ''no idea'')))
        (PStr ''nonexistent_agent''), [])"
    by simp
  from 1 2 3 4 show ?thesis by (simp add: echo_handle_def)
qed

lemma no_listing: "\<not> sublist ''web_search'' ''No agent for type: nonexistent_agent''"
  unfolding str_contains_sublist [symmetric] by simp

text \<open>
  For the unregistered type \<^verbatim>\<open>nonexistent_agent\<close>: the error that \<^verbatim>\<open>handle_task\<close> records
  names no registered type id, and \<^verbatim>\<open>route_task\<close> with an oracle that answers
  \<^verbatim>\<open>web_search\<close> invokes the handler of \<^verbatim>\<open>web_search\<close>.
\<close>

theorem unregistered_type_counterexample:
  "handle_task (example_py []) (example_orchestrator None) unknown_task =
     Inr ([(''final_status'', PStr ''Completed with errors or multiple results''),
           (''results'', PList [PDict [(''error'', PStr ''No agent for type: nonexistent_agent'')]])],
          []) \<and>
   \<not> sublist ''web_search'' ''No agent for type: nonexistent_agent'' \<and>
   route_task (example_py []) (example_orchestrator (Some (replying ''web_search''))) unknown_task =
     ([(''handled_by'', PStr ''WebSearchAgent''), (''task'', PDict unknown_task)],
      [(PStr ''web_search'', unknown_task)])"
proof -
  have e: "handle_task (example_py []) (example_orchestrator None) unknown_task =
     Inr ([(''final_status'', PStr ''Completed with errors or multiple results''),
           (''results'', PList [PDict [(''error'', PStr ''No agent for type: nonexistent_agent'')]])],
          [])"
    by (simp add: handle_task_def execute_sub_tasks_def select_strategy_def can_run_concurrent_def
        independent_at_def run_sequential_def seq_step_def example_orchestrator_def unknown_task_def
        dict_get_def no_agent_error_def aggregate_def dict_has_def)
  have g: "get_agent_type_from_gemini (example_py [])
             (example_orchestrator (Some (replying ''web_search''))) unknown_task = PStr ''web_search''"
    by (simp add: get_agent_type_from_gemini_def example_orchestrator_def replying_def
        example_py_simps ascii_strip_def is_ascii_space_def ascii_split_ws_def index_def)
  let ?orch = "example_orchestrator (Some (replying ''web_search''))"
  have m: "gemini_model ?orch \<noteq> None"
    by (simp add: example_orchestrator_def)
  have h: "agents_has ?orch (PStr ''web_search'') = Inr True"
    by (simp add: example_orchestrator_def)
  have a: "agents_get ?orch (PStr ''web_search'') = Inr (Some (echo_handle ''WebSearchAgent''))"
    by (simp add: example_orchestrator_def)
  have f: "final_agent_type (example_py []) ?orch unknown_task = Inr (PStr ''web_search'')"
    by (simp add: final_agent_type_def g m h Let_def del: agents_has.simps)
  have r: "route_task (example_py []) ?orch unknown_task =
     ([(''handled_by'', PStr ''WebSearchAgent''), (''task'', PDict unknown_task)],
      [(PStr ''web_search'', unknown_task)])"
    by (simp add: route_task_def route_body_def f a echo_handle_def del: agents_get.simps)
  from e no_listing r show ?thesis by blast
qed

section \<open>Exceptions that leave the engine\<close>

lemma strip_fences_missing_payload_reply:
  "strip_fences (example_py table) (strip (example_py table) missing_payload_reply) =
     Inr missing_payload_reply"
  by (simp add: example_py_simps ascii_strip_def is_ascii_space_def strip_fences_def
      missing_payload_reply_def)

text \<open>
  Without an oracle the single task is its own decomposition, and \<^verbatim>\<open>handle_task\<close> returns
  for every task whose type is a string.
\<close>

lemma handle_task_without_oracle:
  assumes "gemini_model self = None" and "dict_get task ''type'' = PStr s"
  shows "\<exists>r c. handle_task py self task = Inr (r, c)"
  using assms
  by (simp add: handle_task_def execute_sub_tasks_def select_strategy_def can_run_concurrent_def
      independent_at_def run_sequential_def seq_step_def Let_def split: option.splits sum.splits)

text \<open>
  Claim C1 says that \<^verbatim>\<open>handle_task\<close> never raises, also when a sub-task lacks the key
  \<^verbatim>\<open>payload\<close>. Here the oracle decomposes the task into two sub-tasks, the second without
  that key: the test \<^verbatim>\<open>sub_tasks[idx]["payload"]\<close> of the strategy selection raises
  \<^verbatim>\<open>KeyError\<close>, which leaves \<^verbatim>\<open>handle_task\<close>.
\<close>

theorem handle_task_raises:
  "decompose_task (example_py example_literals)
       (example_orchestrator (Some (replying missing_payload_reply))) example_task =
     missing_payload_sub_tasks \<and>
   handle_task (example_py example_literals)
       (example_orchestrator (Some (replying missing_payload_reply))) example_task =
     Inl (KeyError ''payload'')"
proof -
  let ?py = "example_py example_literals"
  let ?orch = "example_orchestrator (Some (replying missing_payload_reply))"
  have m: "gemini_model ?orch = Some (replying missing_payload_reply)"
    by (simp add: example_orchestrator_def)
  have l: "literal_eval ?py missing_payload_reply = Inr (PList (map PDict missing_payload_sub_tasks))"
    by (simp add: example_py_def example_literals_def missing_payload_reply_def)
  have d: "decompose_task ?py ?orch example_task = missing_payload_sub_tasks"
    by (rule decompose_parsed [where response = missing_payload_reply, OF m _ _ l])
       (simp_all add: replying_def strip_fences_missing_payload_reply)
  have c: "can_run_concurrent missing_payload_sub_tasks = Inl (KeyError ''payload'')"
    by (simp add: missing_payload_sub_tasks_def can_run_concurrent_Cons independent_at_def)
  have "handle_task ?py ?orch example_task = Inl (KeyError ''payload'')"
    by (simp add: handle_task_def m d execute_sub_tasks_def select_strategy_def c)
  with d show ?thesis by simp
qed

section \<open>Sequential chaining\<close>

text \<open>
  A handler that raises resets the previous result, and a step that starts without a
  previous result dispatches its sub-task unchanged. A sub-task of an unregistered type
  leaves the previous result as it was.
\<close>

lemma seq_step_handler_raises:
  assumes "agents_get self (dict_get st ''type'') = Inr (Some agent)"
    and "(if idx > 0 \<and> prev_result s0 \<noteq> None then chain_input st (the (prev_result s0)) else Inr st) =
           Inr chained"
    and "agent chained = Inl e"
  shows "seq_step py self idx st s0 =
           Inr \<lparr> results = results s0 @ [agent_failed_error py (dict_get st ''type'') e chained],
                 prev_result = None,
                 calls = calls s0 @ [(dict_get st ''type'', chained)] \<rparr>"
  using assms by (simp add: seq_step_def Let_def)

lemma seq_step_without_previous:
  assumes "prev_result s0 = None"
    and "agents_get self (dict_get st ''type'') = Inr (Some agent)"
  shows "\<exists>r p. seq_step py self idx st s0 =
           Inr \<lparr> results = results s0 @ [r], prev_result = p,
                 calls = calls s0 @ [(dict_get st ''type'', st)] \<rparr>"
  using assms by (simp add: seq_step_def Let_def split: sum.splits)

lemma seq_step_unregistered_keeps_previous:
  assumes "agents_get self (dict_get st ''type'') = Inr None"
  shows "\<exists>s1. seq_step py self idx st s0 = Inr s1 \<and> prev_result s1 = prev_result s0"
  using assms by (simp add: seq_step_def Let_def)

text \<open>
  Claim C4 says that the step after a failed step is dispatched without the chaining key.
  Here the second of three sub-tasks names an unregistered type: its failure is recorded,
  the previous result is not reset, and the third sub-task is dispatched with the chaining
  key bound to the result of the first.
\<close>

theorem stale_chain_after_unregistered:
  "select_strategy stale_chain_sub_tasks = Inr SEQUENTIAL \<and>
   (case execute_sub_tasks (example_py []) (example_orchestrator None) stale_chain_sub_tasks of
      Inl e \<Rightarrow> False
    | Inr s \<Rightarrow>
        results s ! 0 = [(''handled_by'', PStr ''WebSearchAgent''), (''task'', PDict (stale_chain_sub_tasks ! 0))] \<and>
        results s ! 1 = [(''error'', PStr ''No agent for type: nope'')] \<and>
        map fst (calls s) = [PStr ''web_search'', PStr ''report_generation''] \<and>
        dict_get (snd (calls s ! 1)) ''payload'' =
          PDict [(''format'', PStr ''pdf''), (''input'', PDict (results s ! 0))])"
proof -
  have s: "select_strategy stale_chain_sub_tasks = Inr SEQUENTIAL"
    by (simp add: select_strategy_def can_run_concurrent_Cons stale_chain_sub_tasks_def
        independent_at_def dict_get_def)
  show ?thesis
    unfolding execute_sub_tasks_def s
    by (simp add: run_sequential_def stale_chain_sub_tasks_def seq_step_def dict_get_def
        example_orchestrator_def echo_handle_def no_agent_error_def chain_input_def
        dict_setdefault_def dict_has_def Let_def)
qed

section \<open>The chaining injection and the template\<close>

text \<open>
  Claim C3 says that the injection works on a fresh copy of the template's payload.
  On the store, the copy of the sub-task at address 3 and the template at address 0 refer
  to the same payload, at address 1, and the injection writes the chaining key into it.
\<close>

theorem chain_input_store_shares_payload:
  "chain_input_store template_store 0 (ORef 2) =
     Inr (3, [[(''type'', OStr ''report_generation''), (''payload'', ORef 1)],
              [(''format'', OStr ''pdf''), (''input'', ORef 2)],
              [(''report'', OStr ''found'')],
              [(''type'', OStr ''report_generation''), (''payload'', ORef 1)],
              []]) \<and>
   map_of (template_store ! 0) ''payload'' = Some (ORef 1) \<and>
   map_of (template_store ! 1) ''input'' = None"
  by (simp add: chain_input_store_def template_store_def alloc_def dict_has_def)

text \<open>
  In general: a template whose payload is a dict has that dict updated in place, and the
  dispatched copy holds the items of the template.
\<close>

lemma chain_input_store_payload:
  assumes "sub_task < length st" and "map_of (st ! sub_task) ''payload'' = Some (ORef p)"
    and "p < length st"
  shows "\<exists>st'. chain_input_store st sub_task prev = Inr (length st, st') \<and>
           st' ! p = dict_set ''input'' prev (st ! p) \<and>
           st' ! length st = st ! sub_task"
  using assms
  by (simp add: chain_input_store_def alloc_def dict_has_def nth_append)

section \<open>A chain in which every step succeeds\<close>

lemma map_of_dict_set: "map_of (dict_set k v d) = (map_of d)(k \<mapsto> v)"
  by (induction d) (auto simp: fun_eq_iff)

lemma chain_input_payload:
  assumes "chain_input sub_task prev = Inr chained"
  shows "map_of (the_dict (dict_get chained ''payload'')) =
           (map_of (the_dict (dict_get sub_task ''payload'')))(''input'' \<mapsto> PDict prev)"
    and "\<And>k. k \<noteq> ''payload'' \<Longrightarrow> map_of chained k = map_of sub_task k"
proof -
  let ?copied = "dict_setdefault ''payload'' (PDict []) sub_task"
  from assms obtain payload where p: "dict_get ?copied ''payload'' = PDict payload"
    and c: "chained = dict_set ''payload'' (PDict (dict_set ''input'' (PDict prev) payload)) ?copied"
    by (auto simp add: chain_input_def Let_def split: pyval.splits)
  have tp: "the_dict (dict_get sub_task ''payload'') = payload \<or>
            (map_of sub_task ''payload'' = None \<and> payload = [])"
    using p by (auto simp add: dict_setdefault_def dict_has_def dict_get_def map_of_dict_set
        split: if_splits option.splits)
  then have "map_of (the_dict (dict_get sub_task ''payload'')) = map_of payload"
    by (auto simp add: dict_get_def)
  then show "map_of (the_dict (dict_get chained ''payload'')) =
           (map_of (the_dict (dict_get sub_task ''payload'')))(''input'' \<mapsto> PDict prev)"
    by (simp add: c dict_get_def map_of_dict_set)
  show "map_of chained k = map_of sub_task k" if "k \<noteq> ''payload''" for k
    using that by (simp add: c map_of_dict_set dict_setdefault_def)
qed

lemma seq_step_grows:
  assumes "seq_step py self idx st s0 = Inr s1"
  shows "\<exists>r. results s1 = results s0 @ [r]"
  using assms
  by (auto simp add: seq_step_def Let_def split: sum.splits option.splits if_splits)

lemma seq_loop_grows:
  assumes "seq_loop py self xs s0 = Inr s"
  shows "\<exists>rs. results s = results s0 @ rs"
  using assms
proof (induction xs arbitrary: s0)
  case Nil
  then show ?case by simp
next
  case (Cons x xs)
  obtain idx st where x: "x = (idx, st)" by (cases x)
  from Cons.prems x obtain s1 where s1: "seq_step py self idx st s0 = Inr s1"
    and rest: "seq_loop py self xs s1 = Inr s"
    by (auto split: sum.splits)
  from seq_step_grows [OF s1] Cons.IH [OF rest] show ?case by auto
qed

lemma seq_step_success:
  assumes "seq_step py self idx st s0 = Inr s1"
    and "\<not> dict_has (last (results s1)) ''error''"
  shows "\<exists>agent chained result.
           agents_get self (dict_get st ''type'') = Inr (Some agent) \<and>
           (if idx > 0 \<and> prev_result s0 \<noteq> None then chain_input st (the (prev_result s0)) else Inr st) =
             Inr chained \<and>
           agent chained = Inr result \<and>
           s1 = \<lparr> results = results s0 @ [result], prev_result = Some result,
                  calls = calls s0 @ [(dict_get st ''type'', chained)] \<rparr>"
  using assms
  by (auto simp add: seq_step_def Let_def no_agent_error_def agent_failed_error_def dict_has_def
      split: sum.splits option.splits if_splits)


text \<open>
  The invariant of the sequential loop when no result has the key \<^verbatim>\<open>error\<close>: before the
  step at index \<open>n\<close> there are \<open>n\<close> results and \<open>n\<close> handler invocations, and the
  previous result is the result of step \<open>n - 1\<close>.
\<close>

lemma seq_loop_all_succeed:
  assumes "seq_loop py self (enumerate n sts) s0 = Inr s"
    and "\<forall>r \<in> set (results s). \<not> dict_has r ''error''"
    and "length (results s0) = n" and "length (calls s0) = n"
    and "0 < n \<longrightarrow> prev_result s0 = Some (results s0 ! (n - 1))"
  shows "length (results s) = n + length sts \<and> length (calls s) = n + length sts \<and>
         (\<forall>i < n. results s ! i = results s0 ! i \<and> calls s ! i = calls s0 ! i) \<and>
         (\<forall>j < length sts.
            fst (calls s ! (n + j)) = dict_get (sts ! j) ''type'' \<and>
            (\<exists>agent. agents_get self (dict_get (sts ! j) ''type'') = Inr (Some agent) \<and>
                     agent (snd (calls s ! (n + j))) = Inr (results s ! (n + j))) \<and>
            (if n + j = 0 then Inr (sts ! j)
             else chain_input (sts ! j) (results s ! (n + j - 1))) = Inr (snd (calls s ! (n + j))))"
  using assms
proof (induction sts arbitrary: n s0)
  case Nil
  then show ?case by simp
next
  case (Cons st rest)
  from Cons.prems(1) obtain s1 where s1: "seq_step py self n st s0 = Inr s1"
    and loop: "seq_loop py self (enumerate (Suc n) rest) s1 = Inr s"
    by (auto split: sum.splits)
  from seq_loop_grows [OF loop] obtain rs where rs: "results s = results s1 @ rs" ..
  from seq_step_grows [OF s1] obtain r where r: "results s1 = results s0 @ [r]" ..
  from rs r Cons.prems(2) have "\<not> dict_has (last (results s1)) ''error''" by simp
  from seq_step_success [OF s1 this] obtain agent chained result where
    agent: "agents_get self (dict_get st ''type'') = Inr (Some agent)" "agent chained = Inr result"
    and chained: "(if n > 0 \<and> prev_result s0 \<noteq> None then chain_input st (the (prev_result s0)) else Inr st) =
             Inr chained"
    and s1_eq: "s1 = \<lparr> results = results s0 @ [result], prev_result = Some result,
                  calls = calls s0 @ [(dict_get st ''type'', chained)] \<rparr>"
    by blast
  have l1: "length (results s1) = Suc n" "length (calls s1) = Suc n"
    using Cons.prems(3,4) by (simp_all add: s1_eq)
  have p1: "0 < Suc n \<longrightarrow> prev_result s1 = Some (results s1 ! (Suc n - 1))"
    using Cons.prems(3) by (simp add: s1_eq nth_append)
  from Cons.IH [OF loop Cons.prems(2) l1 p1]
  have len: "length (results s) = Suc n + length rest" "length (calls s) = Suc n + length rest"
    and keep: "\<forall>i < Suc n. results s ! i = results s1 ! i \<and> calls s ! i = calls s1 ! i"
    and later: "\<forall>j < length rest.
            fst (calls s ! (Suc n + j)) = dict_get (rest ! j) ''type'' \<and>
            (\<exists>agent. agents_get self (dict_get (rest ! j) ''type'') = Inr (Some agent) \<and>
                     agent (snd (calls s ! (Suc n + j))) = Inr (results s ! (Suc n + j))) \<and>
            (if Suc n + j = 0 then Inr (rest ! j)
             else chain_input (rest ! j) (results s ! (Suc n + j - 1))) = Inr (snd (calls s ! (Suc n + j)))"
    by blast+
  have keep0: "\<forall>i < n. results s ! i = results s0 ! i \<and> calls s ! i = calls s0 ! i"
    using keep Cons.prems(3,4) by (simp add: s1_eq nth_append)
  have call_n: "calls s ! n = (dict_get st ''type'', chained)"
    using keep Cons.prems(4) by (simp add: s1_eq nth_append)
  have result_n: "results s ! n = result"
    using keep Cons.prems(3) by (simp add: s1_eq nth_append)
  have head: "(if n = 0 then Inr st else chain_input st (results s ! (n - 1))) = Inr chained"
  proof (cases "n = 0")
    case True
    with chained show ?thesis by simp
  next
    case False
    with Cons.prems(5) have "prev_result s0 = Some (results s0 ! (n - 1))" by simp
    moreover from False keep0 have "results s ! (n - 1) = results s0 ! (n - 1)" by simp
    ultimately show ?thesis using chained False by simp
  qed
  have all: "fst (calls s ! (n + j)) = dict_get ((st # rest) ! j) ''type'' \<and>
            (\<exists>agent. agents_get self (dict_get ((st # rest) ! j) ''type'') = Inr (Some agent) \<and>
                     agent (snd (calls s ! (n + j))) = Inr (results s ! (n + j))) \<and>
            (if n + j = 0 then Inr ((st # rest) ! j)
             else chain_input ((st # rest) ! j) (results s ! (n + j - 1))) = Inr (snd (calls s ! (n + j)))"
    if j: "j < length (st # rest)" for j
  proof (cases j)
    case 0
    with call_n head result_n agent show ?thesis by (auto split: if_splits)
  next
    case (Suc j')
    with j have "j' < length rest" by simp
    with later Suc show ?thesis by simp
  qed
  from len keep0 all show ?case by simp
qed


lemma aggregate_all_succeed:
  assumes "rs \<noteq> []" and "\<forall>r \<in> set rs. \<not> dict_has r ''error''"
  shows "aggregate rs = last rs"
  using assms by (cases rs rule: rev_cases) (auto simp add: aggregate_def list_all_iff nth_append)

text \<open>
  Claim C6. Let the sequential strategy run a non-empty list of sub-tasks, and let no
  result have the key \<^verbatim>\<open>error\<close>. Then every sub-task is dispatched once, in order, and
  its result is what its handler returned for the dispatched task. The first sub-task
  is dispatched as it is. Every later sub-task \<open>i\<close> is dispatched with its own items,
  except that its payload is the template's payload with the chaining key \<^verbatim>\<open>input\<close> bound
  to the result of step \<open>i - 1\<close> and to nothing else. The value returned by
  \<^verbatim>\<open>handle_task\<close> is the result of the last sub-task.
\<close>

theorem sequential_chain_all_succeed:
  assumes "select_strategy sub_tasks = Inr SEQUENTIAL"
    and "execute_sub_tasks py self sub_tasks = Inr s"
    and "\<forall>r \<in> set (results s). ''error'' \<notin> fst ` set r"
    and "sub_tasks \<noteq> []"
  shows "length (results s) = length sub_tasks \<and> length (calls s) = length sub_tasks \<and>
     (\<forall>i < length sub_tasks.
         \<exists>agent. agents_get self (dict_get (sub_tasks ! i) ''type'') = Inr (Some agent) \<and>
                 agent (snd (calls s ! i)) = Inr (results s ! i)) \<and>
     snd (calls s ! 0) = sub_tasks ! 0 \<and>
     (\<forall>i. 0 < i \<and> i < length sub_tasks \<longrightarrow>
         map_of (the_dict (dict_get (snd (calls s ! i)) ''payload'')) =
           (map_of (the_dict (dict_get (sub_tasks ! i) ''payload'')))
             (''input'' \<mapsto> PDict (results s ! (i - 1))) \<and>
         (\<forall>k. k \<noteq> ''payload'' \<longrightarrow> map_of (snd (calls s ! i)) k = map_of (sub_tasks ! i) k)) \<and>
     aggregate (results s) = results s ! (length sub_tasks - 1) \<and>
     (\<forall>task. (if gemini_model self \<noteq> None then decompose_task py self task else [task]) = sub_tasks \<longrightarrow>
         handle_task py self task = Inr (results s ! (length sub_tasks - 1), calls s))"
proof -
  let ?s0 = "\<lparr> results = [], prev_result = None, calls = [] \<rparr>"
  from assms(1,2) have loop: "seq_loop py self (enumerate 0 sub_tasks) ?s0 = Inr s"
    by (simp add: execute_sub_tasks_def run_sequential_def)
  from assms(3) have ok: "\<forall>r \<in> set (results s). \<not> dict_has r ''error''"
    by (simp add: dict_has_keys)
  have base: "length (results ?s0) = 0" "length (calls ?s0) = 0"
    "0 < (0::nat) \<longrightarrow> prev_result ?s0 = Some (results ?s0 ! (0 - 1))"
    by simp_all
  note all = seq_loop_all_succeed [OF loop ok base, unfolded add_0]
  from all
  have len: "length (results s) = length sub_tasks" "length (calls s) = length sub_tasks"
    and steps: "\<forall>j < length sub_tasks.
            fst (calls s ! j) = dict_get (sub_tasks ! j) ''type'' \<and>
            (\<exists>agent. agents_get self (dict_get (sub_tasks ! j) ''type'') = Inr (Some agent) \<and>
                     agent (snd (calls s ! j)) = Inr (results s ! j)) \<and>
            (if j = 0 then Inr (sub_tasks ! j)
             else chain_input (sub_tasks ! j) (results s ! (j - 1))) = Inr (snd (calls s ! j))"
    by blast+
  from steps assms(4) have first: "snd (calls s ! 0) = sub_tasks ! 0"
    by (cases sub_tasks) auto
  have chain: "map_of (the_dict (dict_get (snd (calls s ! i)) ''payload'')) =
           (map_of (the_dict (dict_get (sub_tasks ! i) ''payload'')))
             (''input'' \<mapsto> PDict (results s ! (i - 1))) \<and>
         (\<forall>k. k \<noteq> ''payload'' \<longrightarrow> map_of (snd (calls s ! i)) k = map_of (sub_tasks ! i) k)"
    if i: "0 < i \<and> i < length sub_tasks" for i
  proof -
    from steps i have "chain_input (sub_tasks ! i) (results s ! (i - 1)) = Inr (snd (calls s ! i))"
      by auto
    from chain_input_payload [OF this] show ?thesis by blast
  qed
  from len assms(4) have ne: "results s \<noteq> []" by auto
  have "last (results s) = results s ! (length sub_tasks - 1)"
    using last_conv_nth [OF ne] len by simp
  with aggregate_all_succeed [OF ne ok]
  have agg: "aggregate (results s) = results s ! (length sub_tasks - 1)"
    by simp
  have top: "handle_task py self task = Inr (results s ! (length sub_tasks - 1), calls s)"
    if "(if gemini_model self \<noteq> None then decompose_task py self task else [task]) = sub_tasks"
    for task
    using that assms(2) agg by (simp add: handle_task_def Let_def)
  from len steps first chain agg top show ?thesis by blast
qed

theorem sequential_chain_all_succeed_witness:
  "case execute_sub_tasks (example_py []) (example_orchestrator None) chained_sub_tasks of
     Inl e \<Rightarrow> False
   | Inr s \<Rightarrow>
       length (calls s) = 3 \<and>
       map_of (the_dict (dict_get (snd (calls s ! 1)) ''payload'')) ''input'' = Some (PDict (results s ! 0)) \<and>
       map_of (the_dict (dict_get (snd (calls s ! 2)) ''payload'')) ''input'' = Some (PDict (results s ! 1)) \<and>
       aggregate (results s) = results s ! 2"
proof -
  have sel: "select_strategy chained_sub_tasks = Inr SEQUENTIAL"
    by (simp add: select_strategy_def can_run_concurrent_Cons chained_sub_tasks_def
        independent_at_def dict_get_def)
  have "\<exists>s. execute_sub_tasks (example_py []) (example_orchestrator None) chained_sub_tasks = Inr s \<and>
            (\<forall>r \<in> set (results s). ''error'' \<notin> fst ` set r)"
    unfolding execute_sub_tasks_def sel
    by (simp add: run_sequential_def chained_sub_tasks_def seq_step_def dict_get_def
        example_orchestrator_def echo_handle_def chain_input_def dict_setdefault_def dict_has_def Let_def)
  then obtain s where e: "execute_sub_tasks (example_py []) (example_orchestrator None) chained_sub_tasks = Inr s"
    and ok: "\<forall>r \<in> set (results s). ''error'' \<notin> fst ` set r" by blast
  have ne: "chained_sub_tasks \<noteq> []" by (simp add: chained_sub_tasks_def)
  have l: "length chained_sub_tasks = 3" by (simp add: chained_sub_tasks_def)
  from sequential_chain_all_succeed [OF sel e ok ne]
  have "length (calls s) = 3 \<and>
       map_of (the_dict (dict_get (snd (calls s ! 1)) ''payload'')) ''input'' = Some (PDict (results s ! 0)) \<and>
       map_of (the_dict (dict_get (snd (calls s ! 2)) ''payload'')) ''input'' = Some (PDict (results s ! 1)) \<and>
       aggregate (results s) = results s ! 2"
    unfolding l by (auto simp add: numeral_2_eq_2)
  with e show ?thesis by simp
qed

end
